theory Spec2Isabelle
  imports Main "HOL-Library.Word" "HOL-Library.Char_ord" "HOL-Library.List_Lexorder"
begin

section \<open>Python strings\<close>

text \<open>
  The scraper is Python; its strings are modelled as \<open>string\<close> and the few string
  methods it calls are written out here: \<open>startswith\<close>, \<open>split\<close>, \<open>replace\<close>
  (with and without a count), \<open>str\<close> of an integer and \<open>zfill\<close>. Reversal
  \<open>s[::-1]\<close> is \<open>rev\<close>.
\<close>

definition startswith :: "string \<Rightarrow> string \<Rightarrow> bool" where
  "startswith s p = (take (length p) s = p)"

text \<open>
  \<open>s.split(sep)\<close> for a non-empty separator: the pieces between the occurrences of
  \<open>sep\<close>, found from the left. \<open>cur\<close> is the piece being read. Every call of the
  source passes a non-empty literal (Python raises ValueError on an empty one).
\<close>

fun split_from :: "string \<Rightarrow> string \<Rightarrow> string \<Rightarrow> string list" where
  "split_from sep cur [] = [cur]"
| "split_from sep cur (c # cs) =
     (if sep \<noteq> [] \<and> startswith (c # cs) sep
      then cur # split_from sep [] (drop (length sep) (c # cs))
      else split_from sep (cur @ [c]) cs)"

definition split :: "string \<Rightarrow> string \<Rightarrow> string list" where
  "split s sep = split_from sep [] s"

text \<open>\<open>sep.join(xs)\<close>.\<close>

fun join :: "string \<Rightarrow> string list \<Rightarrow> string" where
  "join sep [] = []"
| "join sep [x] = x"
| "join sep (x # y # ys) = x @ sep @ join sep (y # ys)"

text \<open>
  \<open>s.replace(old, new)\<close> (count \<open>None\<close>) and \<open>s.replace(old, new, k)\<close> (count
  \<open>Some k\<close>) for a non-empty \<open>old\<close>: occurrences are replaced from the left, without
  overlap, at most \<open>k\<close> of them. Both calls of the source pass a non-empty literal.
\<close>

fun replace :: "string \<Rightarrow> string \<Rightarrow> nat option \<Rightarrow> string \<Rightarrow> string" where
  "replace old new count [] = []"
| "replace old new count (c # cs) =
     (if count = Some 0 then c # cs
      else if old \<noteq> [] \<and> startswith (c # cs) old
      then new @ replace old new (map_option (\<lambda>k. k - 1) count) (drop (length old) (c # cs))
      else c # replace old new count cs)"

text \<open>\<open>str(n)\<close> of an integer: its decimal digits, with a minus sign when negative.\<close>

definition digit_char :: "nat \<Rightarrow> char" where
  "digit_char d = ''0123456789'' ! d"

fun digits :: "nat \<Rightarrow> string" where
  "digits n = (if n < 10 then [digit_char n] else digits (n div 10) @ [digit_char (n mod 10)])"

definition str :: "int \<Rightarrow> string" where
  "str i = (if i < 0 then CHR ''-'' # digits (nat (- i)) else digits (nat i))"

text \<open>
  \<open>s.zfill(width)\<close>: zeros on the left up to the width, after a leading sign if
  there is one.
\<close>

definition zfill :: "string \<Rightarrow> nat \<Rightarrow> string" where
  "zfill s width =
     (if width \<le> length s then s
      else (case s of
              c # cs \<Rightarrow>
                if c = CHR ''+'' \<or> c = CHR ''-''
                then c # replicate (width - length s) CHR ''0'' @ cs
                else replicate (width - length s) CHR ''0'' @ s
            | [] \<Rightarrow> replicate width CHR ''0''))"

text \<open>
  \<open>s.split()\<close> with no separator: the pieces between runs of whitespace, none of
  them empty. A character stands for the code point of its number; the whitespace
  below 256 is the tab to the carriage return, the four separators from 28 to 31, the
  space, the next-line character and the no-break space.
\<close>

definition isspace :: "char \<Rightarrow> bool" where
  "isspace c = (c \<in> set [CHR 0x09, CHR 0x0A, CHR 0x0B, CHR 0x0C, CHR 0x0D,
                         CHR 0x1C, CHR 0x1D, CHR 0x1E, CHR 0x1F, CHR 0x20,
                         CHR 0x85, CHR 0xA0])"

fun split_whitespace :: "string \<Rightarrow> string \<Rightarrow> string list" where
  "split_whitespace cur [] = (if cur = [] then [] else [cur])"
| "split_whitespace cur (c # cs) =
     (if isspace c
      then (if cur = [] then split_whitespace [] cs else cur # split_whitespace [] cs)
      else split_whitespace (cur @ [c]) cs)"

section \<open>Values, errors and the outside world\<close>

text \<open>
  Exceptions are values. \<open>FetchingErorr\<close> is the exception of \<open>core.consts\<close>
  that \<open>Episode.download\<close> raises with the failing segment's body and status code;
  \<open>Raised\<close> stands for whatever a collaborator outside these sources raises.
\<close>

datatype py_error =
    AttributeError
  | KeyError
  | IndexError
  | ValueError
  | UnboundLocalError
  | FetchingErorr string int
  | Raised string

type_synonym byte = "8 word"

text \<open>
  A response of the \<open>requests\<close> session. \<open>ok\<close> is the library's: false exactly
  for a status code from 400 to 599.
\<close>

record response =
  r_status_code :: int
  r_text :: string
  r_content :: "byte list"

definition ok :: "'a response_scheme \<Rightarrow> bool" where
  "ok r = (\<not> (400 \<le> r_status_code r \<and> r_status_code r < 600))"

text \<open>
  A rendered page answers selector queries. An element carries its text, its
  attributes, its absolute links (in the order the link set yields them) and what
  \<open>find\<close> returns below it; a page is the table of what each selector finds.
  \<open>find(sel)\<close> is the list, \<open>find(sel, first=True)\<close> its first element or
  \<open>None\<close>.
\<close>

datatype element =
  Element (el_text: string) (el_attrs: "(string \<times> string) list")
          (el_absolute_links: "string list") (el_found: "(string \<times> element list) list")

type_synonym page = "(string \<times> element list) list"

record html_response = response +
  r_html :: page

definition find_all :: "(string \<times> element list) list \<Rightarrow> string \<Rightarrow> element list" where
  "find_all tbl sel = (case map_of tbl sel of None \<Rightarrow> [] | Some es \<Rightarrow> es)"

definition find_first :: "(string \<times> element list) list \<Rightarrow> string \<Rightarrow> element option" where
  "find_first tbl sel = (case find_all tbl sel of [] \<Rightarrow> None | e # es \<Rightarrow> Some e)"

text \<open>\<open>el.attrs[key]\<close> and \<open>xs[i]\<close>, with the errors Python raises.\<close>

definition attrs_getitem :: "element \<Rightarrow> string \<Rightarrow> py_error + string" where
  "attrs_getitem el key = (case map_of (el_attrs el) key of None \<Rightarrow> Inl KeyError | Some v \<Rightarrow> Inr v)"

definition getitem :: "'a list \<Rightarrow> nat \<Rightarrow> py_error + 'a" where
  "getitem xs i = (if i < length xs then Inr (xs ! i) else Inl IndexError)"

text \<open>\<open>d[k] = v\<close> on a dict kept in insertion order.\<close>

fun dict_set :: "(string \<times> string) list \<Rightarrow> string \<Rightarrow> string \<Rightarrow> (string \<times> string) list" where
  "dict_set [] k v = [(k, v)]"
| "dict_set ((k', v') # d) k v = (if k' = k then (k, v) # d else (k', v') # dict_set d k v)"

text \<open>
  What the program does to the outside is kept in a world: a clock counting the
  requests issued so far, the trace of input/output events in the order they happen,
  the failure reports handed to the logger (\<open>log.err\<close> and \<open>log.warn\<close>; the
  informational \<open>log.log\<close> lines are left out), and the files written.
\<close>

datatype event =
    Get string
  | GetPage string
  | Grab string
  | Callback nat nat
  | Sleep nat
  | Write string "byte list"

datatype level = WARN | ERR

record world =
  w_clock :: nat
  w_trace :: "event list"
  w_log :: "(level \<times> string) list"
  w_files :: "string \<rightharpoonup> byte list"

datatype quality = Best | Worst | Middle | Level int

text \<open>
  The collaborators that are not part of the sources at hand, taken as parameters:
  the two network sessions of \<open>Comm\<close> (the answer to a request may depend on how many
  requests came before it), the provider grabber, and the helpers of \<open>core.utils\<close>
  that the scraper calls. The transport is taken to deliver a response to every
  request, and the name helpers to return a string.
\<close>

record env =
  session_get :: "nat \<Rightarrow> string \<Rightarrow> response"
  html_session_get :: "nat \<Rightarrow> string \<Rightarrow> html_response"
  grabber_grab_request :: "nat \<Rightarrow> string \<Rightarrow> py_error + string"
  utils_parse_qualities :: "string \<Rightarrow> quality \<Rightarrow> py_error + string"
  utils_parse_name :: "string \<Rightarrow> string"
  utils_format_name :: "string \<Rightarrow> string"
  utils_complete_url :: "string \<Rightarrow> string"
  utils_get_extension :: "string \<Rightarrow> string"
  utils_get_episode_index :: "string \<Rightarrow> int"

definition log_err :: "string \<Rightarrow> world \<Rightarrow> world" where
  "log_err msg w = w\<lparr>w_log := w_log w @ [(ERR, msg)]\<rparr>"

definition log_warn :: "string \<Rightarrow> world \<Rightarrow> world" where
  "log_warn msg w = w\<lparr>w_log := w_log w @ [(WARN, msg)]\<rparr>"

definition session_get_op :: "env \<Rightarrow> string \<Rightarrow> world \<Rightarrow> response \<times> world" where
  "session_get_op E url w =
     (session_get E (w_clock w) url,
      w\<lparr>w_clock := Suc (w_clock w), w_trace := w_trace w @ [Get url]\<rparr>)"

definition html_session_get_op :: "env \<Rightarrow> string \<Rightarrow> world \<Rightarrow> html_response \<times> world" where
  "html_session_get_op E url w =
     (html_session_get E (w_clock w) url,
      w\<lparr>w_clock := Suc (w_clock w), w_trace := w_trace w @ [GetPage url]\<rparr>)"

definition grab_request_op :: "env \<Rightarrow> string \<Rightarrow> world \<Rightarrow> (py_error + string) \<times> world" where
  "grab_request_op E url w =
     (grabber_grab_request E (w_clock w) url,
      w\<lparr>w_clock := Suc (w_clock w), w_trace := w_trace w @ [Grab url]\<rparr>)"

definition sleep :: "nat \<Rightarrow> world \<Rightarrow> world" where
  "sleep pause w = w\<lparr>w_trace := w_trace w @ [Sleep pause]\<rparr>"

definition write_file :: "string \<Rightarrow> byte list \<Rightarrow> world \<Rightarrow> world" where
  "write_file path bytes w =
     w\<lparr>w_trace := w_trace w @ [Write path bytes], w_files := (w_files w)(path \<mapsto> bytes)\<rparr>"

section \<open>Image, Episode, Anime and Comm\<close>

record image =
  i_raw :: "byte list"
  i_ext :: string
  i_url :: string

text \<open>
  \<open>Image(raw, url = src)\<close>: with no extension given, \<open>__post_init__\<close> asks
  \<open>utils.get_extension\<close> for one.
\<close>

definition Image :: "env \<Rightarrow> byte list \<Rightarrow> string \<Rightarrow> image" where
  "Image E raw url = \<lparr>i_raw = raw, i_ext = utils_get_extension E url, i_url = url\<rparr>"

text \<open>
  Attribute values are dynamically typed: \<open>VNone\<close> is Python's \<open>None\<close>, the
  value every generated attribute starts with (\<open>None\<close> for the anime's episode
  list). An episode's back-reference to its anime is not a field of the record: the
  operations that follow it (\<open>Episode.get_picture\<close>) take the anime beside the
  episode.
\<close>

datatype pyval =
    VNone
  | VStr string
  | VDict "(string \<times> string) list"
  | VImage image
  | VElements "element list"
  | VPage page
  | VOpaque string

record episode =
  e_url :: string
  e_raw_name :: string
  e_name :: string
  e_picture :: pyval
  e_poster :: pyval
  e_tags :: pyval
  e_data :: pyval
  e_provider :: pyval
  e_cache :: "page option"

record anime =
  a_url :: string
  a_raw_name :: string
  a_name :: string
  a_synopsis :: pyval
  a_data :: pyval
  a_picture :: pyval
  a_poster :: pyval
  a_tags :: pyval
  a_episodes :: "episode list option"
  a_cache :: "page option"

text \<open>\<open>Episode.__init__\<close> and \<open>Anime.__init__\<close>.\<close>

definition Episode :: "env \<Rightarrow> string \<Rightarrow> episode" where
  "Episode E url =
     \<lparr>e_url = url,
      e_raw_name = utils_parse_name E url,
      e_name = utils_format_name E (utils_parse_name E url),
      e_picture = VNone, e_poster = VNone, e_tags = VNone, e_data = VNone, e_provider = VNone,
      e_cache = None\<rparr>"

definition Anime :: "env \<Rightarrow> string \<Rightarrow> anime" where
  "Anime E url =
     \<lparr>a_url = url,
      a_raw_name = utils_parse_name E url,
      a_name = utils_format_name E (utils_parse_name E url),
      a_synopsis = VNone, a_data = VNone, a_picture = VNone, a_poster = VNone,
      a_tags = VNone, a_episodes = None,
      a_cache = None\<rparr>"

subsection \<open>Comm.get_dyna\<close>

definition get_dyna :: "env \<Rightarrow> string \<Rightarrow> world \<Rightarrow> (py_error + page) \<times> world" where
  "get_dyna E url w =
     (let (req, w1) = html_session_get_op E url w;
          w2 = (if \<not> ok req then log_err ''Failed to load page'' w1 else w1)
      in (Inr (r_html req), w2))"

subsection \<open>Episode\<close>

text \<open>
  \<open>get_page\<close>: \<open>if self.cache and not force\<close>. The cache slot holds \<open>None\<close> or a
  page object, and a page object is true in a condition.
\<close>

definition Episode_get_page ::
  "env \<Rightarrow> bool \<Rightarrow> bool \<Rightarrow> episode \<Rightarrow> world \<Rightarrow> (py_error + page) \<times> episode \<times> world" where
  "Episode_get_page E cache force ep w =
     (case (case e_cache ep of
              Some cached \<Rightarrow> if \<not> force then (Inr cached, w) else get_dyna E (e_url ep) w
            | None \<Rightarrow> get_dyna E (e_url ep) w) of
        (Inl err, w1) \<Rightarrow> (Inl err, ep, w1)
      | (Inr page, w1) \<Rightarrow> (Inr page, (if cache then ep\<lparr>e_cache := Some page\<rparr> else ep), w1))"

definition Anime_get_page ::
  "env \<Rightarrow> bool \<Rightarrow> bool \<Rightarrow> anime \<Rightarrow> world \<Rightarrow> (py_error + page) \<times> anime \<times> world" where
  "Anime_get_page E cache force an w =
     (case (case a_cache an of
              Some cached \<Rightarrow> if \<not> force then (Inr cached, w) else get_dyna E (a_url an) w
            | None \<Rightarrow> get_dyna E (a_url an) w) of
        (Inl err, w1) \<Rightarrow> (Inl err, an, w1)
      | (Inr page, w1) \<Rightarrow> (Inr page, (if cache then an\<lparr>a_cache := Some page\<rparr> else an), w1))"

text \<open>
  \<open>Episode.get_picture\<close>: the thumbnails of the parent's page are searched for the
  one that links to this episode. The loop returns the image, or ends without one
  (\<open>Inr None\<close>), or stops at the first exception of its body.
\<close>

fun picture_loop ::
  "env \<Rightarrow> string \<Rightarrow> element list \<Rightarrow> world \<Rightarrow> (py_error + image option) \<times> world" where
  "picture_loop E url [] w = (Inr None, w)"
| "picture_loop E url (thumbnail # rest) w =
     (case find_first (el_found thumbnail) ''a'' of
        None \<Rightarrow> (Inl AttributeError, w)
      | Some a \<Rightarrow>
          (case attrs_getitem a ''href'' of
             Inl err \<Rightarrow> (Inl err, w)
           | Inr h \<Rightarrow>
               if utils_complete_url E h \<noteq> url then picture_loop E url rest w
               else (case find_first (el_found thumbnail) ''img'' of
                       None \<Rightarrow> (Inl AttributeError, w)
                     | Some i \<Rightarrow>
                         (case attrs_getitem i ''src'' of
                            Inl err \<Rightarrow> (Inl err, w)
                          | Inr src \<Rightarrow>
                              (let (resp, w1) = session_get_op E src w
                               in (Inr (Some (Image E (r_content resp) src)), w1))))))"

definition Episode_get_picture ::
  "env \<Rightarrow> bool \<Rightarrow> bool \<Rightarrow> episode \<Rightarrow> anime \<Rightarrow> world
     \<Rightarrow> (py_error + image option) \<times> episode \<times> anime \<times> world" where
  "Episode_get_picture E cache force ep an w =
     (case Anime_get_page E cache force an w of
        (Inl err, an1, w1) \<Rightarrow> (Inl err, ep, an1, w1)
      | (Inr page, an1, w1) \<Rightarrow>
          (let thumbnails = find_all page ''.js-list-episode-container .holder''
           in case picture_loop E (e_url ep) thumbnails w1 of
                (Inr (Some img), w2) \<Rightarrow> (Inr (Some img), ep, an1, w2)
              | (Inr None, w2) \<Rightarrow> (Inr None, ep, an1, log_err ''vanished from parent'' w2)
              | (Inl err, w2) \<Rightarrow>
                  (Inr None, ep, an1,
                   log_err ''vanished from parent'' (log_err ''Failed to get picture'' w2))))"

text \<open>
  \<open>Episode.get_provider\<close>. The two assignments of the \<open>try\<close> block bind
  \<open>provider\<close> and \<open>provider_name\<close>; a name whose assignment raised (\<open>Inl\<close>
  here) stays unbound. After the handler the method reads \<open>provider_name\<close> (for
  its log line) and then \<open>provider\<close>.
\<close>

definition Episode_get_provider ::
  "env \<Rightarrow> bool \<Rightarrow> bool \<Rightarrow> episode \<Rightarrow> world \<Rightarrow> (py_error + string) \<times> episode \<times> world" where
  "Episode_get_provider E cache force ep w =
     (case Episode_get_page E cache force ep w of
        (Inl err, ep1, w1) \<Rightarrow> (Inl err, ep1, w1)
      | (Inr page, ep1, w1) \<Rightarrow>
          (let provider =
                 (case find_first page ''#display-player iframe'' of
                    None \<Rightarrow> Inl AttributeError
                  | Some el \<Rightarrow> attrs_getitem el ''src'');
               provider_name =
                 (case provider of
                    Inl err \<Rightarrow> Inl err
                  | Inr p \<Rightarrow>
                      (case getitem (split p ''//'') 1 of
                         Inl err \<Rightarrow> Inl err
                       | Inr rest \<Rightarrow> getitem (split rest ''/'') 0));
               w2 = (case provider_name of
                       Inl err \<Rightarrow> log_err ''Failed to get provider'' w1
                     | Inr n \<Rightarrow> w1)
           in case provider_name of
                Inl err \<Rightarrow> (Inl UnboundLocalError, ep1, w2)
              | Inr n \<Rightarrow>
                  (case provider of
                     Inl err \<Rightarrow> (Inl UnboundLocalError, ep1, w2)
                   | Inr p \<Rightarrow> (Inr p, ep1\<lparr>e_provider := VStr p\<rparr>, w2))))"

text \<open>
  Modelled from the spec: \<open>utils.bar\<close>, the progress bar that \<open>Episode.download\<close>
  wraps around the enumerated segments; it is not among the sources. The spec's
  download pipeline visits "each segment in order", so the bar hands on the items it
  is given, in their order.
\<close>

definition bar :: "string \<Rightarrow> 'a list \<Rightarrow> 'a list" where
  "bar title xs = xs"

text \<open>
  The progress callback is the caller's: a call returns or raises, and each call is
  an event of the trace.
\<close>

type_synonym callback = "nat \<Rightarrow> nat \<Rightarrow> py_error + unit"

definition call_callback :: "callback \<Rightarrow> nat \<Rightarrow> nat \<Rightarrow> world \<Rightarrow> (py_error + unit) \<times> world" where
  "call_callback f i n w = (f i n, w\<lparr>w_trace := w_trace w @ [Callback i n]\<rparr>)"

text \<open>
  The segment list of \<open>Episode.download\<close>, as a function of the playlist's text:
  \<open>[s for s in res.split('\n') if s.startswith('https://')]\<close>.
\<close>

definition playlist_segments :: "string \<Rightarrow> string list" where
  "playlist_segments res = filter (\<lambda>s. startswith s ''https://'') (split res [CHR 0x0A])"

text \<open>The \<open>for i, link in ...\<close> loop of \<open>Episode.download\<close>.\<close>

fun fetch_segments ::
  "env \<Rightarrow> callback option \<Rightarrow> nat \<Rightarrow> (nat \<times> string) list \<Rightarrow> byte list \<Rightarrow> world
     \<Rightarrow> (py_error + byte list) \<times> world" where
  "fetch_segments E looping_callback lenght [] content w = (Inr content, w)"
| "fetch_segments E looping_callback lenght ((i, link) # rest) content w =
     (let (segment, w1) = session_get_op E link w
      in if \<not> ok segment
         then (Inl (FetchingErorr (r_text segment) (r_status_code segment)), w1)
         else (case (case looping_callback of
                       None \<Rightarrow> (Inr (), w1)
                     | Some f \<Rightarrow> call_callback f i lenght w1) of
                 (Inl err, w2) \<Rightarrow> (Inl err, w2)
               | (Inr u, w2) \<Rightarrow>
                   fetch_segments E looping_callback lenght rest (content @ r_content segment) w2))"

definition Episode_download ::
  "env \<Rightarrow> string \<Rightarrow> quality \<Rightarrow> bool \<Rightarrow> callback option \<Rightarrow> episode \<Rightarrow> world
     \<Rightarrow> (py_error + string) \<times> episode \<times> world" where
  "Episode_download E path quality ext looping_callback ep w =
     (case Episode_get_provider E True False ep w of
        (Inl err, ep1, w1) \<Rightarrow> (Inl err, ep1, w1)
      | (Inr provider_url, ep1, w1) \<Rightarrow>
          (case grab_request_op E provider_url w1 of
             (Inl err, w2) \<Rightarrow> (Inl err, ep1, w2)
           | (Inr raw, w2) \<Rightarrow>
               (case utils_parse_qualities E raw quality of
                  Inl err \<Rightarrow> (Inl err, ep1, w2)
                | Inr url \<Rightarrow>
                    (let (res, w3) = session_get_op E url w2;
                         segments = playlist_segments (r_text res);
                         lenght = length segments
                     in case fetch_segments E looping_callback lenght
                               (bar ''Fetching'' (enumerate 0 segments)) [] w3 of
                          (Inl err, w4) \<Rightarrow> (Inl err, ep1, w4)
                        | (Inr content, w4) \<Rightarrow>
                            (let path1 = (if ext then path @ ''.mp4'' else path)
                             in (Inr path1, ep1, write_file path1 content w4))))))"

text \<open>
  The names every instance has without its class defining them: those of \<open>object\<close>,
  and \<open>__dict__\<close>, \<open>__module__\<close> and \<open>__weakref__\<close>.
\<close>

definition object_attributes :: "string list" where
  "object_attributes =
     [''__class__'', ''__delattr__'', ''__dict__'', ''__dir__'', ''__doc__'', ''__eq__'',
      ''__format__'', ''__ge__'', ''__getattribute__'', ''__getstate__'', ''__gt__'',
      ''__hash__'', ''__init__'', ''__init_subclass__'', ''__le__'', ''__lt__'',
      ''__module__'', ''__ne__'', ''__new__'', ''__reduce__'', ''__reduce_ex__'',
      ''__repr__'', ''__setattr__'', ''__sizeof__'', ''__str__'', ''__subclasshook__'',
      ''__weakref__'']"

text \<open>
  \<open>Episode.__getattribute__\<close>. \<open>Episode_attribute\<close> is the plain attribute lookup
  (\<open>super().__getattribute__\<close>): the instance's attributes, the methods of the
  class and the names every instance has; \<open>Episode_call\<close> is \<open>eval(f'self.get_{name}')()\<close>, the look-up of the
  method of that name and its call with the default arguments. The class defines
  \<open>get_page\<close>, \<open>get_picture\<close> and \<open>get_provider\<close> and no other \<open>get_\<close> method.
\<close>

definition Episode_attribute :: "episode \<Rightarrow> string \<Rightarrow> pyval option" where
  "Episode_attribute ep name =
     map_of
       ([(''url'', VStr (e_url ep)), (''raw_name'', VStr (e_raw_name ep)),
         (''name'', VStr (e_name ep)),
         (''picture'', e_picture ep), (''poster'', e_poster ep), (''tags'', e_tags ep),
         (''data'', e_data ep), (''provider'', e_provider ep),
         (''cache'', (case e_cache ep of None \<Rightarrow> VNone | Some page \<Rightarrow> VPage page))]
        @ map (\<lambda>n. (n, VOpaque n))
            ([''anime'', ''comm'', ''log'', ''from_url'', ''get_page'', ''get_picture'',
              ''get_provider'', ''download''] @ object_attributes))
       name"

definition Episode_call ::
  "env \<Rightarrow> string \<Rightarrow> episode \<Rightarrow> anime \<Rightarrow> world \<Rightarrow> (py_error + pyval) \<times> episode \<times> anime \<times> world" where
  "Episode_call E method ep an w =
     (if method = ''get_picture'' then
        (case Episode_get_picture E True False ep an w of
           (Inl err, ep1, an1, w1) \<Rightarrow> (Inl err, ep1, an1, w1)
         | (Inr None, ep1, an1, w1) \<Rightarrow> (Inr VNone, ep1, an1, w1)
         | (Inr (Some img), ep1, an1, w1) \<Rightarrow> (Inr (VImage img), ep1, an1, w1))
      else if method = ''get_provider'' then
        (case Episode_get_provider E True False ep w of
           (Inl err, ep1, w1) \<Rightarrow> (Inl err, ep1, an, w1)
         | (Inr p, ep1, w1) \<Rightarrow> (Inr (VStr p), ep1, an, w1))
      else (Inl AttributeError, ep, an, w))"

definition Episode_getattribute ::
  "env \<Rightarrow> string \<Rightarrow> episode \<Rightarrow> anime \<Rightarrow> world \<Rightarrow> (py_error + pyval) \<times> episode \<times> anime \<times> world" where
  "Episode_getattribute E name ep an w =
     (let auto = [''picture'', ''poster'', ''tags'', ''data'', ''provider'']
      in case Episode_attribute ep name of
           None \<Rightarrow> (Inl AttributeError, ep, an, w)
         | Some val \<Rightarrow>
             if name \<notin> set auto then (Inr val, ep, an, w)
             else if name \<in> set auto \<and> val = VNone then Episode_call E (''get_'' @ name) ep an w
             else (Inr val, ep, an, w))"

subsection \<open>Anime\<close>

text \<open>
  The resolvers share one shape: get the page, run a \<open>try\<close> block whose handler
  reports the exception to the logger and goes on, then use the names the block was
  to bind. A name the block did not reach is unbound, and reading it raises
  \<open>UnboundLocalError\<close>.
\<close>

definition Anime_get_synopsis ::
  "env \<Rightarrow> bool \<Rightarrow> bool \<Rightarrow> anime \<Rightarrow> world \<Rightarrow> (py_error + string) \<times> anime \<times> world" where
  "Anime_get_synopsis E cache force an w =
     (case Anime_get_page E cache force an w of
        (Inl err, an1, w1) \<Rightarrow> (Inl err, an1, w1)
      | (Inr page, an1, w1) \<Rightarrow>
          (let syn = (case find_first page ''.synopsis'' of
                        None \<Rightarrow> Inl AttributeError
                      | Some el \<Rightarrow> Inr (el_text el));
               w2 = (case syn of Inl err \<Rightarrow> log_err ''Failed to get data'' w1 | Inr t \<Rightarrow> w1)
           in case syn of
                Inl err \<Rightarrow> (Inl UnboundLocalError, an1, w2)
              | Inr t \<Rightarrow> (Inr t, an1\<lparr>a_synopsis := VStr t\<rparr>, w2)))"

text \<open>
  \<open>get_data\<close>: \<open>data\<close> is bound before the \<open>try\<close> block, so what the loop stored
  before an exception stays. \<open>k, *v = ...\<close> needs at least one piece.
\<close>

fun data_loop ::
  "element list \<Rightarrow> (string \<times> string) list \<Rightarrow> py_error option \<times> (string \<times> string) list" where
  "data_loop [] data = (None, data)"
| "data_loop (el # rest) data =
     (let raw = el_text el;
          pieces = (if CHR 0x0A \<in> set raw then split raw [CHR 0x0A] else split_whitespace [] raw)
      in case pieces of
           [] \<Rightarrow> (Some ValueError, data)
         | k # v \<Rightarrow> data_loop rest (dict_set data k (join '' '' v)))"

definition Anime_get_data ::
  "env \<Rightarrow> bool \<Rightarrow> bool \<Rightarrow> anime \<Rightarrow> world
     \<Rightarrow> (py_error + (string \<times> string) list) \<times> anime \<times> world" where
  "Anime_get_data E cache force an w =
     (case Anime_get_page E cache force an w of
        (Inl err, an1, w1) \<Rightarrow> (Inl err, an1, w1)
      | (Inr page, an1, w1) \<Rightarrow>
          (let elements = find_all page ''#anime-info-list .item'';
               (raised, data) = data_loop elements [];
               w2 = (case raised of Some err \<Rightarrow> log_err ''Failed to get data'' w1 | None \<Rightarrow> w1)
           in (Inr data, an1\<lparr>a_data := VDict data\<rparr>, w2)))"

text \<open>
  \<open>get_picture\<close> and \<open>get_poster\<close> return the image they build; neither assigns
  to \<open>self.picture\<close> or \<open>self.poster\<close>.
\<close>

definition Anime_get_picture ::
  "env \<Rightarrow> bool \<Rightarrow> bool \<Rightarrow> anime \<Rightarrow> world \<Rightarrow> (py_error + image) \<times> anime \<times> world" where
  "Anime_get_picture E cache force an w =
     (case Anime_get_page E cache force an w of
        (Inl err, an1, w1) \<Rightarrow> (Inl err, an1, w1)
      | (Inr page, an1, w1) \<Rightarrow>
          (let src = (case find_first page ''.loading'' of
                        None \<Rightarrow> Inl AttributeError
                      | Some el \<Rightarrow> attrs_getitem el ''src'')
           in case src of
                Inl err \<Rightarrow> (Inl UnboundLocalError, an1, log_err ''Failed to get picture'' w1)
              | Inr src \<Rightarrow>
                  (let (resp, w2) = session_get_op E src w1
                   in (Inr (Image E (r_content resp) src), an1, w2))))"

definition Anime_get_poster ::
  "env \<Rightarrow> bool \<Rightarrow> bool \<Rightarrow> anime \<Rightarrow> world \<Rightarrow> (py_error + image) \<times> anime \<times> world" where
  "Anime_get_poster E cache force an w =
     (case Anime_get_page E cache force an w of
        (Inl err, an1, w1) \<Rightarrow> (Inl err, an1, w1)
      | (Inr page, an1, w1) \<Rightarrow>
          (let style = (case find_first page ''#head'' of
                          None \<Rightarrow> Inl AttributeError
                        | Some el \<Rightarrow> attrs_getitem el ''style'');
               src = (case style of
                        Inl err \<Rightarrow> Inl err
                      | Inr st \<Rightarrow>
                          (case getitem (split st ''url('') 1 of
                             Inl err \<Rightarrow> Inl err
                           | Inr rest \<Rightarrow> getitem (split rest '')'') 0))
           in case src of
                Inl err \<Rightarrow> (Inl UnboundLocalError, an1, log_err ''Failed to get poster'' w1)
              | Inr src \<Rightarrow>
                  (let (resp, w2) = session_get_op E src w1
                   in (Inr (Image E (r_content resp) src), an1, w2))))"

text \<open>
  \<open>get_tags\<close> binds \<open>tags\<close> twice: to the items found, then to the dict built from
  them. When building the dict raises, \<open>tags\<close> is still the list of items.
\<close>

fun tags_dict ::
  "env \<Rightarrow> element list \<Rightarrow> (string \<times> string) list \<Rightarrow> py_error + (string \<times> string) list" where
  "tags_dict E [] d = Inr d"
| "tags_dict E (t # ts) d =
     (case attrs_getitem t ''href'' of
        Inl err \<Rightarrow> Inl err
      | Inr h \<Rightarrow> tags_dict E ts (dict_set d (el_text t) (utils_complete_url E h)))"

definition Anime_get_tags ::
  "env \<Rightarrow> bool \<Rightarrow> bool \<Rightarrow> anime \<Rightarrow> world \<Rightarrow> (py_error + pyval) \<times> anime \<times> world" where
  "Anime_get_tags E cache force an w =
     (case Anime_get_page E cache force an w of
        (Inl err, an1, w1) \<Rightarrow> (Inl err, an1, w1)
      | (Inr page, an1, w1) \<Rightarrow>
          (case find_first page ''.tag'' of
             None \<Rightarrow> (Inl UnboundLocalError, an1, log_err ''Failed to get tags'' w1)
           | Some el \<Rightarrow>
               (let items = find_all (el_found el) ''item''
                in case tags_dict E items [] of
                     Inl err \<Rightarrow>
                       (Inr (VElements items), an1\<lparr>a_tags := VElements items\<rparr>,
                        log_err ''Failed to get tags'' w1)
                   | Inr tags \<Rightarrow> (Inr (VDict tags), an1\<lparr>a_tags := VDict tags\<rparr>, w1))))"

text \<open>
  \<open>get_episodes\<close>: the links of the listing, as a set, sorted. With the helpers
  taken as total, no step of its \<open>try\<close> block raises.
\<close>

definition Anime_get_episodes ::
  "env \<Rightarrow> (int \<Rightarrow> bool) option \<Rightarrow> bool \<Rightarrow> bool \<Rightarrow> anime \<Rightarrow> world
     \<Rightarrow> (py_error + episode list) \<times> anime \<times> world" where
  "Anime_get_episodes E filter' cache force an w =
     (case Anime_get_page E cache force an w of
        (Inl err, an1, w1) \<Rightarrow> (Inl err, an1, w1)
      | (Inr page, an1, w1) \<Rightarrow>
          (let objects = find_all page ''.js-list-episode-container *'';
               episodes = sort (remdups (map (\<lambda>ep. hd (el_absolute_links ep))
                                           (filter (\<lambda>ep. el_absolute_links ep \<noteq> []) objects)));
               filtered =
                 (case filter' of
                    Some f \<Rightarrow> map (Episode E) (filter (\<lambda>ep. f (utils_get_episode_index E ep)) episodes)
                  | None \<Rightarrow> map (Episode E) episodes)
           in (Inr filtered, an1\<lparr>a_episodes := Some filtered\<rparr>, w1)))"

definition Anime_get_episode :: "env \<Rightarrow> anime \<Rightarrow> int \<Rightarrow> episode" where
  "Anime_get_episode E an index =
     (let i = rev (''-'' @ zfill (str index) 2 @ ''_'');
          ep_url = replace ''/info/'' ''/episode/'' None (a_url an);
          ep_url = rev (replace ''_'' i (Some 1) (rev ep_url))
      in Episode E ep_url)"

text \<open>\<open>EpisodeIterable.__getitem__\<close>: \<open>if 1: return self.anime.get_episode(index)\<close>.\<close>

definition EpisodeIterable_getitem :: "env \<Rightarrow> anime \<Rightarrow> int \<Rightarrow> episode" where
  "EpisodeIterable_getitem E an index = Anime_get_episode E an index"

text \<open>
  \<open>Anime.download\<close>. The episodes being downloaded are the objects of the list that
  \<open>get_episodes\<close> stored in \<open>self.episodes\<close>, so what a download does to an episode
  shows there: \<open>seen\<close> are the episodes already done.
\<close>

fun download_loop ::
  "env \<Rightarrow> string \<Rightarrow> nat \<Rightarrow> quality \<Rightarrow> episode list \<Rightarrow> episode list \<Rightarrow> string list
     \<Rightarrow> anime \<Rightarrow> world \<Rightarrow> (py_error + string list) \<times> anime \<times> world" where
  "download_loop E path pause quality seen [] pathes an w = (Inr pathes, an, w)"
| "download_loop E path pause quality seen (episode # rest) pathes an w =
     (let ep_path = path @ e_raw_name episode @ ''.mp4''
      in case Episode_download E ep_path quality False None episode w of
           (Inl err, episode1, w1) \<Rightarrow>
             (Inl err, an\<lparr>a_episodes := Some (seen @ episode1 # rest)\<rparr>, w1)
         | (Inr p, episode1, w1) \<Rightarrow>
             download_loop E path pause quality (seen @ [episode1]) rest (pathes @ [ep_path])
               (an\<lparr>a_episodes := Some (seen @ episode1 # rest)\<rparr>) (sleep pause w1))"

definition Anime_download ::
  "env \<Rightarrow> string \<Rightarrow> nat \<Rightarrow> quality \<Rightarrow> anime \<Rightarrow> world
     \<Rightarrow> (py_error + string list) \<times> anime \<times> world" where
  "Anime_download E path pause quality an w =
     (if path = [] then (Inl IndexError, an, w)
      else
        (let path1 = (if \<not> (last path = CHR ''/'' \<or> last path = CHR 0x5C) then path @ ''/'' else path)
         in case Anime_get_episodes E None True False an w of
              (Inl err, an1, w1) \<Rightarrow> (Inl err, an1, w1)
            | (Inr episodes, an1, w1) \<Rightarrow> download_loop E path1 pause quality [] episodes [] an1 w1))"

text \<open>
  \<open>Anime.__getattribute__\<close>, as for the episode; every name of \<open>auto\<close> has its
  \<open>get_\<close> method here.
\<close>

datatype anime_val = AVal pyval | AEpisodes "episode list"

definition Anime_attribute :: "anime \<Rightarrow> string \<Rightarrow> anime_val option" where
  "Anime_attribute an name =
     map_of
       ([(''url'', AVal (VStr (a_url an))), (''raw_name'', AVal (VStr (a_raw_name an))),
         (''name'', AVal (VStr (a_name an))),
         (''synopsis'', AVal (a_synopsis an)), (''data'', AVal (a_data an)),
         (''picture'', AVal (a_picture an)), (''poster'', AVal (a_poster an)),
         (''tags'', AVal (a_tags an)),
         (''episodes'', (case a_episodes an of None \<Rightarrow> AVal VNone | Some eps \<Rightarrow> AEpisodes eps)),
         (''cache'', AVal (case a_cache an of None \<Rightarrow> VNone | Some page \<Rightarrow> VPage page))]
        @ map (\<lambda>n. (n, AVal (VOpaque n)))
            ([''comm'', ''log'', ''episode'', ''get_page'', ''get_synopsis'', ''get_data'',
              ''get_picture'', ''get_poster'', ''get_tags'', ''get_episodes'', ''get_episode'',
              ''download''] @ object_attributes))
       name"

definition Anime_call ::
  "env \<Rightarrow> string \<Rightarrow> anime \<Rightarrow> world \<Rightarrow> (py_error + anime_val) \<times> anime \<times> world" where
  "Anime_call E method an w =
     (if method = ''get_synopsis'' then
        (case Anime_get_synopsis E True False an w of
           (Inl err, an1, w1) \<Rightarrow> (Inl err, an1, w1)
         | (Inr t, an1, w1) \<Rightarrow> (Inr (AVal (VStr t)), an1, w1))
      else if method = ''get_data'' then
        (case Anime_get_data E True False an w of
           (Inl err, an1, w1) \<Rightarrow> (Inl err, an1, w1)
         | (Inr d, an1, w1) \<Rightarrow> (Inr (AVal (VDict d)), an1, w1))
      else if method = ''get_picture'' then
        (case Anime_get_picture E True False an w of
           (Inl err, an1, w1) \<Rightarrow> (Inl err, an1, w1)
         | (Inr img, an1, w1) \<Rightarrow> (Inr (AVal (VImage img)), an1, w1))
      else if method = ''get_poster'' then
        (case Anime_get_poster E True False an w of
           (Inl err, an1, w1) \<Rightarrow> (Inl err, an1, w1)
         | (Inr img, an1, w1) \<Rightarrow> (Inr (AVal (VImage img)), an1, w1))
      else if method = ''get_tags'' then
        (case Anime_get_tags E True False an w of
           (Inl err, an1, w1) \<Rightarrow> (Inl err, an1, w1)
         | (Inr v, an1, w1) \<Rightarrow> (Inr (AVal v), an1, w1))
      else if method = ''get_episodes'' then
        (case Anime_get_episodes E None True False an w of
           (Inl err, an1, w1) \<Rightarrow> (Inl err, an1, w1)
         | (Inr eps, an1, w1) \<Rightarrow> (Inr (AEpisodes eps), an1, w1))
      else (Inl AttributeError, an, w))"

definition Anime_getattribute ::
  "env \<Rightarrow> string \<Rightarrow> anime \<Rightarrow> world \<Rightarrow> (py_error + anime_val) \<times> anime \<times> world" where
  "Anime_getattribute E name an w =
     (let auto = [''synopsis'', ''data'', ''picture'', ''poster'', ''tags'', ''episodes'']
      in case Anime_attribute an name of
           None \<Rightarrow> (Inl AttributeError, an, w)
         | Some val \<Rightarrow>
             if name \<notin> set auto then (Inr val, an, w)
             else if name \<in> set auto \<and> val = AVal VNone then
               (let w1 = (if name = ''episodes'' then log_warn ''Deprecated attribute'' w else w)
                in Anime_call E (''get_'' @ name) an w1)
             else (Inr val, an, w))"

section \<open>The quality resolver\<close>

text \<open>
  Modelled from the spec: \<open>utils.parse_qualities\<close>, the quality resolver, which is not
  among the sources (\<open>Episode.download\<close> only calls it). The spec's algorithm, on
  the manifest of (quality level, URL) pairs: sort the entries by level, ascending;
  \<open>best\<close> is the entry with the maximum level, \<open>worst\<close> the one with the minimum
  level, \<open>middle\<close> the entry at the midpoint index (the lower middle for an even
  count), a number the entry whose level is nearest to it, the lower level on a tie;
  an empty manifest is the failure \<open>ManifestEmpty\<close>.
\<close>

datatype resolve_error = ManifestEmpty

fun nearest :: "int \<Rightarrow> int \<times> string \<Rightarrow> (int \<times> string) list \<Rightarrow> int \<times> string" where
  "nearest v best [] = best"
| "nearest v best (e # es) =
     nearest v (if \<bar>fst e - v\<bar> < \<bar>fst best - v\<bar> then e else best) es"

definition parse_qualities :: "(int \<times> string) list \<Rightarrow> quality \<Rightarrow> resolve_error + string" where
  "parse_qualities manifest q =
     (case sort_key fst manifest of
        [] \<Rightarrow> Inl ManifestEmpty
      | e # es \<Rightarrow>
          Inr (snd (case q of
                      Best \<Rightarrow> last (e # es)
                    | Worst \<Rightarrow> e
                    | Middle \<Rightarrow> (e # es) ! ((length (e # es) - 1) div 2)
                    | Level v \<Rightarrow> nearest v e es)))"

section \<open>The spec's words, for comparison\<close>


text \<open>
  The spec describes the Episode Index as "replacing the last numeric path segment
  with the zero-padded index". Read on the URL's text: its last run of digits gives
  way to the token (a URL without a digit stays as it is).
\<close>

definition isdigit :: "char \<Rightarrow> bool" where
  "isdigit c = (c \<in> set ''0123456789'')"

definition replace_last_number :: "string \<Rightarrow> string \<Rightarrow> string" where
  "replace_last_number url token =
     (let r = rev url;
          after = takeWhile (\<lambda>c. \<not> isdigit c) r;
          rest = dropWhile (\<lambda>c. \<not> isdigit c) r;
          before = dropWhile isdigit rest
      in if rest = [] then url else rev before @ token @ rev after)"

text \<open>
  The responses a run of segment requests gets when the first of them is request
  number \<open>c\<close>, and the events of the loop's turn for segment \<open>i\<close>: the request,
  then the call of the callback when there is one.
\<close>

fun segment_responses :: "env \<Rightarrow> nat \<Rightarrow> string list \<Rightarrow> response list" where
  "segment_responses E c [] = []"
| "segment_responses E c (link # links) = session_get E c link # segment_responses E (Suc c) links"

definition segment_events :: "callback option \<Rightarrow> nat \<Rightarrow> nat \<times> string \<Rightarrow> event list" where
  "segment_events looping_callback lenght = (\<lambda>(i, link).
     Get link # (case looping_callback of None \<Rightarrow> [] | Some f \<Rightarrow> [Callback i lenght]))"

text \<open>
  The batch download seen from outside: the files written and the pauses slept, in
  the order they happen.
\<close>

fun batch_events :: "event list \<Rightarrow> (string + nat) list" where
  "batch_events [] = []"
| "batch_events (Write path bytes # es) = Inl path # batch_events es"
| "batch_events (Sleep pause # es) = Inr pause # batch_events es"
| "batch_events (e # es) = batch_events es"

text \<open>
  The run of a batch over its episodes, from the world it starts in: each episode in
  turn is downloaded by \<open>Episode.download\<close> to the directory followed by its raw name
  and \<open>.mp4\<close> (no extension added, no callback), in the world the episode before it
  and the pause after that episode left. The result is the world at the end, or
  \<open>None\<close> when a download raises.
\<close>

fun batch_run ::
  "env \<Rightarrow> string \<Rightarrow> nat \<Rightarrow> quality \<Rightarrow> episode list \<Rightarrow> world \<Rightarrow> world option" where
  "batch_run E dir pause quality [] w = Some w"
| "batch_run E dir pause quality (ep # eps) w =
     (case Episode_download E (dir @ e_raw_name ep @ ''.mp4'') quality False None ep w of
        (Inl err, ep1, w1) \<Rightarrow> None
      | (Inr p, ep1, w1) \<Rightarrow> batch_run E dir pause quality eps (sleep pause w1))"

section \<open>A small site\<close>

text \<open>
  A concrete environment for the examples: a show page listing two episodes (one of
  them twice, out of order), episode pages with a player, a playlist of three
  segments among other lines, and a cover image whose bytes change from one request
  to the next.
\<close>

definition demo_playlist :: string where
  "demo_playlist =
     ''#EXTM3U'' @ [CHR 0x0A] @ ''https://c/0.ts'' @ [CHR 0x0A] @ ''#EXTINF'' @ [CHR 0x0A]
       @ ''https://c/1.ts'' @ [CHR 0x0A] @ ''https://c/2.ts'' @ [CHR 0x0A]"

definition demo_show_page :: page where
  "demo_show_page =
     [(''.synopsis'', [Element ''A story.'' [] [] []]),
      (''.loading'', [Element [] [(''src'', ''https://c/cover.jpg'')] [] []]),
      (''.js-list-episode-container *'',
         [Element [] [] [''https://s/episode/1-show-02_vostfr''] [],
          Element [] [] [] [],
          Element [] [] [''https://s/episode/1-show-01_vostfr''] [],
          Element [] [] [''https://s/episode/1-show-02_vostfr''] []])]"

definition demo_episode_page :: page where
  "demo_episode_page =
     [(''#display-player iframe'', [Element [] [(''src'', ''https://p/embed/1'')] [] []])]"

definition demo_env :: env where
  "demo_env =
     \<lparr>session_get = (\<lambda>k url.
         if url = ''https://c/list.m3u8''
         then \<lparr>r_status_code = 200, r_text = demo_playlist, r_content = []\<rparr>
         else if url = ''https://c/0.ts''
         then \<lparr>r_status_code = 200, r_text = [], r_content = [0x41]\<rparr>
         else if url = ''https://c/1.ts''
         then \<lparr>r_status_code = 200, r_text = [], r_content = [0x42]\<rparr>
         else if url = ''https://c/2.ts''
         then \<lparr>r_status_code = 200, r_text = [], r_content = [0x43]\<rparr>
         else if url = ''https://c/cover.jpg''
         then \<lparr>r_status_code = 200, r_text = [], r_content = [of_nat k]\<rparr>
         else \<lparr>r_status_code = 404, r_text = ''not found'', r_content = []\<rparr>),
      html_session_get = (\<lambda>k url.
         if url = ''https://s/info/1-show_vostfr''
         then \<lparr>r_status_code = 200, r_text = [], r_content = [], r_html = demo_show_page\<rparr>
         else \<lparr>r_status_code = 200, r_text = [], r_content = [], r_html = demo_episode_page\<rparr>),
      grabber_grab_request = (\<lambda>k url. Inr ''manifest''),
      utils_parse_qualities = (\<lambda>raw q. Inr ''https://c/list.m3u8''),
      utils_parse_name = (\<lambda>url. last (split url ''/'')),
      utils_format_name = map (\<lambda>c. if c = CHR ''_'' \<or> c = CHR ''-'' then CHR '' '' else c),
      utils_complete_url = (\<lambda>url. url),
      utils_get_extension = (\<lambda>url. last (split url ''.'')),
      utils_get_episode_index = (\<lambda>url. 0)\<rparr>"

text \<open>The same site when the last segment is gone.\<close>

definition demo_env_gone :: env where
  "demo_env_gone =
     demo_env\<lparr>session_get := (\<lambda>k url.
        if url = ''https://c/2.ts''
        then \<lparr>r_status_code = 404, r_text = ''gone'', r_content = [0x58]\<rparr>
        else session_get demo_env k url)\<rparr>"

text \<open>The same site when the last segment answers 304 with no body.\<close>

definition demo_env_not_modified :: env where
  "demo_env_not_modified =
     demo_env\<lparr>session_get := (\<lambda>k url.
        if url = ''https://c/2.ts''
        then \<lparr>r_status_code = 304, r_text = [], r_content = []\<rparr>
        else session_get demo_env k url)\<rparr>"

definition demo_world :: world where
  "demo_world = \<lparr>w_clock = 0, w_trace = [], w_log = [], w_files = Map.empty\<rparr>"

definition demo_anime :: anime where
  "demo_anime = Anime demo_env ''https://s/info/1-show_vostfr''"

definition demo_episode :: episode where
  "demo_episode = Episode demo_env ''https://s/episode/1-show-01_vostfr''"

section \<open>Facts about the string methods\<close>







lemma replace_first_char:
  "c \<in> set xs \<Longrightarrow>
     replace [c] new (Some 1) xs
       = takeWhile (\<lambda>x. x \<noteq> c) xs @ new @ tl (dropWhile (\<lambda>x. x \<noteq> c) xs)"
proof (induction xs)
  case Nil
  then show ?case by simp
next
  case (Cons x xs)
  show ?case
  proof (cases "x = c")
    case True
    then show ?thesis by (cases xs) (simp_all add: startswith_def)
  next
    case False
    with Cons show ?thesis by (simp add: startswith_def)
  qed
qed

lemma replace_char_absent: "c \<notin> set xs \<Longrightarrow> replace [c] new count xs = xs"
  by (induction xs) (auto simp: startswith_def)

lemma last_split:
  "c \<in> set u \<Longrightarrow>
     u = rev (tl (dropWhile (\<lambda>x. x \<noteq> c) (rev u))) @ [c] @ rev (takeWhile (\<lambda>x. x \<noteq> c) (rev u))"
proof -
  assume "c \<in> set u"
  then have "dropWhile (\<lambda>x. x \<noteq> c) (rev u) \<noteq> []" by simp
  then have "dropWhile (\<lambda>x. x \<noteq> c) (rev u) = c # tl (dropWhile (\<lambda>x. x \<noteq> c) (rev u))"
    by (metis (mono_tags, lifting) hd_dropWhile list.collapse)
  then have "rev u = takeWhile (\<lambda>x. x \<noteq> c) (rev u) @ c # tl (dropWhile (\<lambda>x. x \<noteq> c) (rev u))"
    by (metis takeWhile_dropWhile_id)
  then have "rev (rev u) = rev (takeWhile (\<lambda>x. x \<noteq> c) (rev u) @ c # tl (dropWhile (\<lambda>x. x \<noteq> c) (rev u)))"
    by simp
  then show ?thesis by simp
qed

lemma zfill_7: "zfill (str 7) 2 = ''07''"
  by (simp add: zfill_def str_def digit_char_def)

lemma zfill_8: "zfill (str 8) 2 = ''08''"
  by (simp add: zfill_def str_def digit_char_def)


section \<open>The segment list of a playlist\<close>



section \<open>The Episode Index\<close>

lemma get_episode_url_eq:
  "e_url (Anime_get_episode E an index) =
     (let u = replace ''/info/'' ''/episode/'' None (a_url an)
      in if CHR ''_'' \<in> set u
         then rev (tl (dropWhile (\<lambda>c. c \<noteq> CHR ''_'') (rev u)))
                @ ''-'' @ zfill (str index) 2 @ ''_''
                @ rev (takeWhile (\<lambda>c. c \<noteq> CHR ''_'') (rev u))
         else u)"
proof -
  define u where "u = replace ''/info/'' ''/episode/'' None (a_url an)"
  define i where "i = rev (''-'' @ zfill (str index) 2 @ ''_'')"
  have url: "e_url (Anime_get_episode E an index) = rev (replace ''_'' i (Some 1) (rev u))"
    by (simp add: Anime_get_episode_def Episode_def u_def i_def Let_def)
  show ?thesis
  proof (cases "CHR ''_'' \<in> set u")
    case True
    then have "CHR ''_'' \<in> set (rev u)" by simp
    from replace_first_char [OF this, of i]
    have "rev (replace ''_'' i (Some 1) (rev u))
            = rev (tl (dropWhile (\<lambda>c. c \<noteq> CHR ''_'') (rev u))) @ rev i
                @ rev (takeWhile (\<lambda>c. c \<noteq> CHR ''_'') (rev u))"
      by simp
    with True url show ?thesis
      by (simp add: u_def [symmetric] i_def Let_def)
  next
    case False
    then have "CHR ''_'' \<notin> set (rev u)" by simp
    from replace_char_absent [OF this] False url show ?thesis
      by (simp add: u_def [symmetric] Let_def)
  qed
qed

text \<open>
  C8, as amended. \<open>get_episode\<close> turns \<open>/info/\<close> into \<open>/episode/\<close> in the
  show's URL and puts \<open>-NN\<close>, the index padded to two digits, before the last
  underscore of the result: \<open>before_after\<close> becomes \<open>before-NN_after\<close>. No
  numeric part of the URL is replaced. A URL without an underscore is left without
  an index. The URL built depends on the show's URL and the index alone, so it is the
  same at every call, and the Episode Index gives the same episode. For a URL with
  an underscore the URLs of the indices 7 and 8 are \<open>before-07_after\<close> and
  \<open>before-08_after\<close>.
\<close>

theorem get_episode_url:
  "(let u = replace ''/info/'' ''/episode/'' None (a_url an);
        before = rev (tl (dropWhile (\<lambda>c. c \<noteq> CHR ''_'') (rev u)));
        after = rev (takeWhile (\<lambda>c. c \<noteq> CHR ''_'') (rev u))
    in if CHR ''_'' \<in> set u
       then u = before @ ''_'' @ after \<and> CHR ''_'' \<notin> set after
            \<and> e_url (Anime_get_episode E an index)
                = before @ ''-'' @ zfill (str index) 2 @ ''_'' @ after
            \<and> e_url (Anime_get_episode E an 7) = before @ ''-07_'' @ after
            \<and> e_url (Anime_get_episode E an 8) = before @ ''-08_'' @ after
       else e_url (Anime_get_episode E an index) = u)
   \<and> e_url (Anime_get_episode E' (an'\<lparr>a_url := a_url an\<rparr>) index)
       = e_url (Anime_get_episode E an index)
   \<and> EpisodeIterable_getitem E an index = Anime_get_episode E an index"
proof -
  define u where "u = replace ''/info/'' ''/episode/'' None (a_url an)"
  have after: "CHR ''_'' \<notin> set (rev (takeWhile (\<lambda>c. c \<noteq> CHR ''_'') (rev u)))"
    by (auto dest: set_takeWhileD)
  have split: "CHR ''_'' \<in> set u \<Longrightarrow>
      u = rev (tl (dropWhile (\<lambda>c. c \<noteq> CHR ''_'') (rev u))) @ ''_''
            @ rev (takeWhile (\<lambda>c. c \<noteq> CHR ''_'') (rev u))"
    by (rule last_split)
  have same: "e_url (Anime_get_episode E' (an'\<lparr>a_url := a_url an\<rparr>) index)
                = e_url (Anime_get_episode E an index)"
    by (simp add: get_episode_url_eq)
  show ?thesis
    unfolding Let_def u_def [symmetric]
    using after split same
    by (simp add: get_episode_url_eq [of E an] u_def [symmetric] Let_def zfill_7 zfill_8
          EpisodeIterable_getitem_def del: set_rev)
qed

text \<open>
  C8 as the spec states it fails. For the show \<open>https://s/info/1-show_vostfr\<close>
  and index 7 the episode's URL is \<open>https://s/episode/1-show-07_vostfr\<close>: the
  show's number is still there, and the index stands at a new place; replacing the
  last numeric part would give \<open>https://s/info/07-show_vostfr\<close>. For the show
  \<open>https://s/info/show/12\<close>, which has no underscore, the indices 7 and 8 give
  the same URL.
\<close>

theorem get_episode_url_counterexample:
  "e_url (Anime_get_episode demo_env demo_anime 7) = ''https://s/episode/1-show-07_vostfr''
   \<and> replace_last_number (a_url demo_anime) (zfill (str 7) 2) = ''https://s/info/07-show_vostfr''
   \<and> e_url (Anime_get_episode demo_env demo_anime 7)
       \<noteq> replace_last_number (a_url demo_anime) (zfill (str 7) 2)
   \<and> e_url (Anime_get_episode demo_env (Anime demo_env ''https://s/info/show/12'') 7)
       = ''https://s/episode/show/12''
   \<and> e_url (Anime_get_episode demo_env (Anime demo_env ''https://s/info/show/12'') 8)
       = ''https://s/episode/show/12''"
  by (simp add: Anime_get_episode_def Episode_def demo_anime_def Anime_def zfill_7 Let_def
        startswith_def replace_last_number_def isdigit_def)

section \<open>Pages and the page cache\<close>

lemma get_dyna_result:
  "get_dyna E url w =
     (Inr (r_html (html_session_get E (w_clock w) url)),
      (if ok (html_session_get E (w_clock w) url) then id else log_err ''Failed to load page'')
        (w\<lparr>w_clock := Suc (w_clock w), w_trace := w_trace w @ [GetPage url]\<rparr>))"
  by (simp add: get_dyna_def html_session_get_op_def)

lemma Anime_get_page_result:
  "Anime_get_page E cache force an w =
     (let hit = (a_cache an \<noteq> None \<and> \<not> force);
          page = (if hit then the (a_cache an)
                  else r_html (html_session_get E (w_clock w) (a_url an)))
      in (Inr page,
          (if cache then an\<lparr>a_cache := Some page\<rparr> else an),
          (if hit then w else snd (get_dyna E (a_url an) w))))"
  by (cases "a_cache an") (simp_all add: Anime_get_page_def get_dyna_result Let_def)

lemma Episode_get_page_result:
  "Episode_get_page E cache force ep w =
     (let hit = (e_cache ep \<noteq> None \<and> \<not> force);
          page = (if hit then the (e_cache ep)
                  else r_html (html_session_get E (w_clock w) (e_url ep)))
      in (Inr page,
          (if cache then ep\<lparr>e_cache := Some page\<rparr> else ep),
          (if hit then w else snd (get_dyna E (e_url ep) w))))"
  by (cases "e_cache ep") (simp_all add: Episode_get_page_def get_dyna_result Let_def)

text \<open>
  C10. \<open>Comm.get_dyna\<close> returns the rendered page of the response it got,
  whatever the response's status: the result is \<open>Inr\<close> of the page, never an
  exception, and it is the same page when the status code of the response is changed
  to any other code. A status that is not a success shows only in the logger, which
  gets one failure report; the session is asked once.
\<close>

theorem get_dyna_returns_page:
  "fst (get_dyna E url w) = Inr (r_html (html_session_get E (w_clock w) url))
   \<and> fst (get_dyna (E\<lparr>html_session_get := \<lambda>k u. resp\<lparr>r_status_code := code\<rparr>\<rparr>) url w)
       = Inr (r_html resp)
   \<and> w_log (snd (get_dyna E url w))
       = w_log w @ (if ok (html_session_get E (w_clock w) url) then []
                    else [(ERR, ''Failed to load page'')])
   \<and> w_trace (snd (get_dyna E url w)) = w_trace w @ [GetPage url]"
  by (simp add: get_dyna_result log_err_def)

text \<open>
  C6, as amended. For an anime and for an episode, \<open>get_page(cache, force)\<close>
  returns the cached page when there is one and \<open>force\<close> is not set, without a
  request; otherwise it fetches the page with one request and returns it. With the
  \<open>cache\<close> flag set the page returned is stored in the entity's one cache slot, in
  place of whatever the slot held; with the flag clear the entity is left as it was,
  also when the fetch was forced.
\<close>

theorem get_page_cache_slot:
  "(let hit = (a_cache an \<noteq> None \<and> \<not> force);
        page = (if hit then the (a_cache an)
                else r_html (html_session_get E (w_clock w) (a_url an)));
        r = Anime_get_page E cache force an w
    in fst r = Inr page
       \<and> fst (snd r) = (if cache then an\<lparr>a_cache := Some page\<rparr> else an)
       \<and> w_trace (snd (snd r)) = w_trace w @ (if hit then [] else [GetPage (a_url an)]))
   \<and> (let hit = (e_cache ep \<noteq> None \<and> \<not> force);
           page = (if hit then the (e_cache ep)
                   else r_html (html_session_get E (w_clock v) (e_url ep)));
           r = Episode_get_page E cache force ep v
       in fst r = Inr page
          \<and> fst (snd r) = (if cache then ep\<lparr>e_cache := Some page\<rparr> else ep)
          \<and> w_trace (snd (snd r)) = w_trace v @ (if hit then [] else [GetPage (e_url ep)]))"
  by (simp add: Anime_get_page_result Episode_get_page_result Let_def get_dyna_result log_err_def)

text \<open>
  C6 as the spec states it fails where it says that a forced fetch replaces the
  cached snapshot: with \<open>force\<close> set and \<open>cache\<close> clear, an entity that holds a
  cached page gets the fresh page as the result, and its slot still holds the old
  one.
\<close>

theorem get_page_forced_counterexample:
  "fst (Anime_get_page demo_env False True (demo_anime\<lparr>a_cache := Some []\<rparr>) demo_world)
     = Inr demo_show_page
   \<and> a_cache (fst (snd (Anime_get_page demo_env False True
                           (demo_anime\<lparr>a_cache := Some []\<rparr>) demo_world))) = Some []
   \<and> demo_show_page \<noteq> []
   \<and> fst (Episode_get_page demo_env False True (demo_episode\<lparr>e_cache := Some []\<rparr>) demo_world)
       = Inr demo_episode_page
   \<and> e_cache (fst (snd (Episode_get_page demo_env False True
                           (demo_episode\<lparr>e_cache := Some []\<rparr>) demo_world))) = Some []
   \<and> demo_episode_page \<noteq> []"
  by (simp add: Anime_get_page_result Episode_get_page_result Let_def demo_env_def demo_anime_def
        demo_episode_def Anime_def Episode_def demo_world_def demo_show_page_def
        demo_episode_page_def)

section \<open>Quality resolution\<close>

lemma sorted_last_max:
  "sorted (map f xs) \<Longrightarrow> x \<in> set xs \<Longrightarrow> f x \<le> f (last xs)"
  by (induction xs) (auto split: if_splits)

lemma sorted_hd_min:
  "sorted (map f (y # ys)) \<Longrightarrow> x \<in> set (y # ys) \<Longrightarrow> f y \<le> f x"
  by auto

lemma nearest_spec:
  "sorted (map fst (b # es)) \<Longrightarrow>
     nearest v b es \<in> set (b # es)
     \<and> (\<forall>x \<in> set (b # es).
          \<bar>fst (nearest v b es) - v\<bar> < \<bar>fst x - v\<bar>
          \<or> (\<bar>fst (nearest v b es) - v\<bar> = \<bar>fst x - v\<bar> \<and> fst (nearest v b es) \<le> fst x))"
proof (induction es arbitrary: b)
  case Nil
  then show ?case by simp
next
  case (Cons e es)
  let ?b = "if \<bar>fst e - v\<bar> < \<bar>fst b - v\<bar> then e else b"
  let ?r = "nearest v ?b es"
  have r: "nearest v b (e # es) = ?r" by simp
  have be: "fst b \<le> fst e" using Cons.prems by simp
  have "sorted (map fst (?b # es))" using Cons.prems by auto
  from Cons.IH [OF this]
  have mem: "?r \<in> set (?b # es)"
    and opt: "\<And>x. x \<in> set (?b # es) \<Longrightarrow>
                \<bar>fst ?r - v\<bar> < \<bar>fst x - v\<bar> \<or> (\<bar>fst ?r - v\<bar> = \<bar>fst x - v\<bar> \<and> fst ?r \<le> fst x)"
    by blast+
  have "?r \<in> set (b # e # es)" using mem by (auto split: if_splits)
  moreover have "\<bar>fst ?r - v\<bar> < \<bar>fst x - v\<bar> \<or> (\<bar>fst ?r - v\<bar> = \<bar>fst x - v\<bar> \<and> fst ?r \<le> fst x)"
    if xin: "x \<in> set (b # e # es)" for x
  proof -
    have ob: "\<bar>fst ?r - v\<bar> < \<bar>fst ?b - v\<bar> \<or> (\<bar>fst ?r - v\<bar> = \<bar>fst ?b - v\<bar> \<and> fst ?r \<le> fst ?b)"
      using opt [of ?b] by simp
    consider "x = b" | "x = e" | "x \<in> set es" using xin by auto
    then show ?thesis
    proof cases
      case 1
      then show ?thesis using ob by (auto split: if_splits)
    next
      case 2
      then show ?thesis using ob be by (auto split: if_splits)
    next
      case 3
      then show ?thesis using opt [of x] by simp
    qed
  qed
  ultimately show ?case unfolding r by blast
qed

lemma sort_key_empty: "sort_key f xs = [] \<longleftrightarrow> xs = []"
  by (metis length_sort length_0_conv)

text \<open>
  C5, on the resolver as the spec describes it. An empty manifest is the failure
  \<open>ManifestEmpty\<close>, whatever the quality asked for, and no URL. On a manifest that
  is not empty: \<open>best\<close> is the URL of an entry whose level no entry exceeds,
  \<open>worst\<close> the URL of an entry whose level is below or equal to every entry's,
  \<open>middle\<close> the URL of the entry at index \<open>(n - 1) div 2\<close> of the manifest sorted
  by level (the lower middle), and a number \<open>v\<close> the URL of an entry that is
  nearer to \<open>v\<close> than any other entry or as near and not above it. For the manifest
  \<open>{1: u1, 3: u2, 5: u3}\<close>: best is \<open>u3\<close>, worst \<open>u1\<close>, 4 gives \<open>u2\<close>, middle
  \<open>u2\<close>.
\<close>

theorem parse_qualities_resolves:
  "parse_qualities [] q = Inl ManifestEmpty
   \<and> (manifest \<noteq> [] \<longrightarrow>
        (\<exists>(l, u) \<in> set manifest. parse_qualities manifest Best = Inr u
            \<and> (\<forall>(l', u') \<in> set manifest. l' \<le> l))
      \<and> (\<exists>(l, u) \<in> set manifest. parse_qualities manifest Worst = Inr u
            \<and> (\<forall>(l', u') \<in> set manifest. l \<le> l'))
      \<and> parse_qualities manifest Middle
            = Inr (snd (sort_key fst manifest ! ((length manifest - 1) div 2)))
      \<and> (\<exists>(l, u) \<in> set manifest. parse_qualities manifest (Level v) = Inr u
            \<and> (\<forall>(l', u') \<in> set manifest.
                  \<bar>l - v\<bar> < \<bar>l' - v\<bar> \<or> (\<bar>l - v\<bar> = \<bar>l' - v\<bar> \<and> l \<le> l'))))
   \<and> parse_qualities [(1, u1), (3, u2), (5, u3)] Best = Inr u3
   \<and> parse_qualities [(1, u1), (3, u2), (5, u3)] Worst = Inr u1
   \<and> parse_qualities [(1, u1), (3, u2), (5, u3)] (Level 4) = Inr u2
   \<and> parse_qualities [(1, u1), (3, u2), (5, u3)] Middle = Inr u2"
proof -
  have empty: "parse_qualities [] q = Inl ManifestEmpty"
    by (simp add: parse_qualities_def)
  have example:
    "parse_qualities [(1, u1), (3, u2), (5, u3)] Best = Inr u3"
    "parse_qualities [(1, u1), (3, u2), (5, u3)] Worst = Inr u1"
    "parse_qualities [(1, u1), (3, u2), (5, u3)] (Level 4) = Inr u2"
    "parse_qualities [(1, u1), (3, u2), (5, u3)] Middle = Inr u2"
    by (simp_all add: parse_qualities_def)
  have general:
    "(\<exists>(l, u) \<in> set manifest. parse_qualities manifest Best = Inr u
            \<and> (\<forall>(l', u') \<in> set manifest. l' \<le> l))
      \<and> (\<exists>(l, u) \<in> set manifest. parse_qualities manifest Worst = Inr u
            \<and> (\<forall>(l', u') \<in> set manifest. l \<le> l'))
      \<and> parse_qualities manifest Middle
            = Inr (snd (sort_key fst manifest ! ((length manifest - 1) div 2)))
      \<and> (\<exists>(l, u) \<in> set manifest. parse_qualities manifest (Level v) = Inr u
            \<and> (\<forall>(l', u') \<in> set manifest.
                  \<bar>l - v\<bar> < \<bar>l' - v\<bar> \<or> (\<bar>l - v\<bar> = \<bar>l' - v\<bar> \<and> l \<le> l')))"
    if ne: "manifest \<noteq> []"
  proof -
    obtain e es where s: "sort_key fst manifest = e # es"
      using ne sort_key_empty [of fst manifest] by (cases "sort_key fst manifest") auto
    have srt: "sorted (map fst (e # es))"
      using sorted_sort_key [of fst manifest] s by simp
    have set_eq: "set (e # es) = set manifest"
      using set_sort [of fst manifest] s by simp
    have len: "length (e # es) = length manifest"
      using length_sort [of fst manifest] s by simp
    have best: "parse_qualities manifest Best = Inr (snd (last (e # es)))"
      and worst: "parse_qualities manifest Worst = Inr (snd e)"
      and middle: "parse_qualities manifest Middle = Inr (snd ((e # es) ! ((length (e # es) - 1) div 2)))"
      and level: "parse_qualities manifest (Level v) = Inr (snd (nearest v e es))"
      by (simp_all add: parse_qualities_def s)
    have b1: "last (e # es) \<in> set manifest"
      using set_eq last_in_set [of "e # es"] by blast
    have b2: "\<And>x. x \<in> set manifest \<Longrightarrow> fst x \<le> fst (last (e # es))"
      using sorted_last_max [OF srt] set_eq by blast
    have w1: "e \<in> set manifest" using set_eq by auto
    have w2: "\<And>x. x \<in> set manifest \<Longrightarrow> fst e \<le> fst x"
      using sorted_hd_min [OF srt] set_eq by blast
    have n1: "nearest v e es \<in> set manifest"
      using nearest_spec [OF srt, of v] set_eq by blast
    have n2: "\<And>x. x \<in> set manifest \<Longrightarrow>
               \<bar>fst (nearest v e es) - v\<bar> < \<bar>fst x - v\<bar>
               \<or> (\<bar>fst (nearest v e es) - v\<bar> = \<bar>fst x - v\<bar> \<and> fst (nearest v e es) \<le> fst x)"
      using nearest_spec [OF srt, of v] set_eq by blast
    have c1: "\<exists>(l, u) \<in> set manifest. parse_qualities manifest Best = Inr u
            \<and> (\<forall>(l', u') \<in> set manifest. l' \<le> l)"
      using b1 b2 best by (intro bexI [of _ "last (e # es)"]) (auto simp: case_prod_beta)
    have c2: "\<exists>(l, u) \<in> set manifest. parse_qualities manifest Worst = Inr u
            \<and> (\<forall>(l', u') \<in> set manifest. l \<le> l')"
      using w1 w2 worst by (intro bexI [of _ e]) (auto simp: case_prod_beta)
    have c3: "parse_qualities manifest Middle
            = Inr (snd (sort_key fst manifest ! ((length manifest - 1) div 2)))"
    proof -
      have "length manifest - 1 = length es" using len by simp
      then show ?thesis by (simp add: middle s)
    qed
    have c4: "\<exists>(l, u) \<in> set manifest. parse_qualities manifest (Level v) = Inr u
            \<and> (\<forall>(l', u') \<in> set manifest.
                  \<bar>l - v\<bar> < \<bar>l' - v\<bar> \<or> (\<bar>l - v\<bar> = \<bar>l' - v\<bar> \<and> l \<le> l'))"
      using n1 n2 level by (intro bexI [of _ "nearest v e es"]) (auto simp: case_prod_beta)
    from c1 c2 c3 c4 show ?thesis by blast
  qed
  from empty example general show ?thesis by blast
qed

text \<open>
  The theorem at a manifest of four entries given out of order: the middle of an
  even count is the lower one, and 4 between the levels 3 and 5 resolves to 3.
\<close>

theorem parse_qualities_resolves_witness:
  "[(3, ''u2''), (1, ''u1''), (5, ''u3''), (8, ''u4'')] \<noteq> []
   \<and> parse_qualities [(3, ''u2''), (1, ''u1''), (5, ''u3''), (8, ''u4'')] Best = Inr ''u4''
   \<and> parse_qualities [(3, ''u2''), (1, ''u1''), (5, ''u3''), (8, ''u4'')] Worst = Inr ''u1''
   \<and> parse_qualities [(3, ''u2''), (1, ''u1''), (5, ''u3''), (8, ''u4'')] Middle = Inr ''u2''
   \<and> parse_qualities [(3, ''u2''), (1, ''u1''), (5, ''u3''), (8, ''u4'')] (Level 4) = Inr ''u2''
   \<and> parse_qualities [(3, ''u2''), (1, ''u1''), (5, ''u3''), (8, ''u4'')] (Level 7) = Inr ''u4''"
  using parse_qualities_resolves [of Best "[(3, ''u2''), (1, ''u1''), (5, ''u3''), (8, ''u4'')]" 4]
  by (simp add: parse_qualities_def)

section \<open>Downloading an episode\<close>

text \<open>
  The segment loop when every request succeeds and the callback returns: the
  payloads are appended in order, each turn leaves its events, the clock advances by
  one per segment.
\<close>

lemma fetch_segments_ok:
  "list_all ok (segment_responses E (w_clock w) segs) \<Longrightarrow>
   (\<And>f j. cb = Some f \<Longrightarrow> j < length segs \<Longrightarrow> f (k + j) n = Inr ()) \<Longrightarrow>
   fetch_segments E cb n (enumerate k segs) content w =
     (Inr (content @ concat (map r_content (segment_responses E (w_clock w) segs))),
      w\<lparr>w_clock := w_clock w + length segs,
        w_trace := w_trace w @ concat (map (segment_events cb n) (enumerate k segs))\<rparr>)"
proof (induction segs arbitrary: k content w)
  case Nil
  then show ?case by simp
next
  case (Cons s segs)
  let ?r = "session_get E (w_clock w) s"
  let ?w1 = "w\<lparr>w_clock := Suc (w_clock w), w_trace := w_trace w @ segment_events cb n (k, s)\<rparr>"
  have ok: "ok ?r" and rest: "list_all ok (segment_responses E (w_clock ?w1) segs)"
    using Cons.prems(1) by simp_all
  have cb0: "\<And>f. cb = Some f \<Longrightarrow> f k n = Inr ()"
    using Cons.prems(2) [of _ 0] by simp
  have cbs: "\<And>f j. cb = Some f \<Longrightarrow> j < length segs \<Longrightarrow> f (Suc k + j) n = Inr ()"
    using Cons.prems(2) [of _ "Suc _"] by simp
  have step: "fetch_segments E cb n (enumerate k (s # segs)) content w
                = fetch_segments E cb n (enumerate (Suc k) segs) (content @ r_content ?r) ?w1"
    using ok cb0
    by (cases cb) (simp_all add: session_get_op_def call_callback_def segment_events_def)
  have "fetch_segments E cb n (enumerate (Suc k) segs) (content @ r_content ?r) ?w1 =
     (Inr ((content @ r_content ?r) @ concat (map r_content (segment_responses E (w_clock ?w1) segs))),
      ?w1\<lparr>w_clock := w_clock ?w1 + length segs,
        w_trace := w_trace ?w1 @ concat (map (segment_events cb n) (enumerate (Suc k) segs))\<rparr>)"
    using rest cbs by (rule Cons.IH)
  with step show ?case by simp
qed


text \<open>The segment loop when the request after \<open>pre\<close> fails: it stops there.\<close>

lemma fetch_segments_fails:
  "list_all ok (segment_responses E (w_clock w) pre) \<Longrightarrow>
   \<not> ok (session_get E (w_clock w + length pre) bad) \<Longrightarrow>
   (\<And>f j. cb = Some f \<Longrightarrow> j < length pre \<Longrightarrow> f (k + j) n = Inr ()) \<Longrightarrow>
   fetch_segments E cb n (enumerate k (pre @ bad # post)) content w =
     (Inl (FetchingErorr (r_text (session_get E (w_clock w + length pre) bad))
                         (r_status_code (session_get E (w_clock w + length pre) bad))),
      w\<lparr>w_clock := Suc (w_clock w + length pre),
        w_trace := w_trace w @ concat (map (segment_events cb n) (enumerate k pre)) @ [Get bad]\<rparr>)"
proof (induction pre arbitrary: k content w)
  case Nil
  then show ?case by (simp add: session_get_op_def)
next
  case (Cons s pre)
  let ?r = "session_get E (w_clock w) s"
  let ?w1 = "w\<lparr>w_clock := Suc (w_clock w), w_trace := w_trace w @ segment_events cb n (k, s)\<rparr>"
  have ok: "ok ?r" and rest: "list_all ok (segment_responses E (w_clock ?w1) pre)"
    using Cons.prems(1) by simp_all
  have bad: "\<not> ok (session_get E (w_clock ?w1 + length pre) bad)"
    using Cons.prems(2) by simp
  have cb0: "\<And>f. cb = Some f \<Longrightarrow> f k n = Inr ()"
    using Cons.prems(3) [of _ 0] by simp
  have cbs: "\<And>f j. cb = Some f \<Longrightarrow> j < length pre \<Longrightarrow> f (Suc k + j) n = Inr ()"
    using Cons.prems(3) [of _ "Suc _"] by simp
  have step: "fetch_segments E cb n (enumerate k ((s # pre) @ bad # post)) content w
                = fetch_segments E cb n (enumerate (Suc k) (pre @ bad # post))
                    (content @ r_content ?r) ?w1"
    using ok cb0
    by (cases cb) (simp_all add: session_get_op_def call_callback_def segment_events_def)
  have "fetch_segments E cb n (enumerate (Suc k) (pre @ bad # post)) (content @ r_content ?r) ?w1 =
     (Inl (FetchingErorr (r_text (session_get E (w_clock ?w1 + length pre) bad))
                         (r_status_code (session_get E (w_clock ?w1 + length pre) bad))),
      ?w1\<lparr>w_clock := Suc (w_clock ?w1 + length pre),
        w_trace := w_trace ?w1 @ concat (map (segment_events cb n) (enumerate (Suc k) pre)) @ [Get bad]\<rparr>)"
    using rest bad cbs by (rule Cons.IH)
  with step show ?case by simp
qed

lemma Episode_get_page_world:
  "Episode_get_page E cache force ep w = (r, ep1, w1) \<Longrightarrow>
     w_files w1 = w_files w
     \<and> w_trace w1 = w_trace w @ (if e_cache ep \<noteq> None \<and> \<not> force then [] else [GetPage (e_url ep)])
     \<and> w_clock w1 = w_clock w + (if e_cache ep \<noteq> None \<and> \<not> force then 0 else 1)
     \<and> (\<exists>page. r = Inr page)"
  by (auto simp: Episode_get_page_result get_dyna_result Let_def log_err_def)

lemma Episode_get_provider_world:
  assumes "Episode_get_provider E cache force ep w = (r, ep1, w1)"
  shows "w_files w1 = w_files w
     \<and> w_trace w1 = w_trace w @ (if e_cache ep \<noteq> None \<and> \<not> force then [] else [GetPage (e_url ep)])
     \<and> w_clock w1 = w_clock w + (if e_cache ep \<noteq> None \<and> \<not> force then 0 else 1)"
proof -
  obtain r0 ep0 w0 where gp: "Episode_get_page E cache force ep w = (r0, ep0, w0)"
    by (metis prod_cases3)
  from Episode_get_page_world [OF gp] obtain page where r0: "r0 = Inr page"
    and w0: "w_files w0 = w_files w"
      "w_trace w0 = w_trace w @ (if e_cache ep \<noteq> None \<and> \<not> force then [] else [GetPage (e_url ep)])"
      "w_clock w0 = w_clock w + (if e_cache ep \<noteq> None \<and> \<not> force then 0 else 1)"
    by blast
  have "w1 = w0 \<or> w1 = log_err ''Failed to get provider'' w0"
    using assms unfolding Episode_get_provider_def gp r0 Let_def
    by (simp split: sum.splits)
  then show ?thesis using w0 by (auto simp: log_err_def)
qed

text \<open>
  C1. Let the stages before the segment loop succeed: the provider is resolved, the
  grabber answers, a quality is resolved to the playlist's URL, the playlist is
  fetched. Let every segment request get a successful response, and let the
  callback, when one is supplied, return. Then \<open>Episode.download\<close> returns the
  output path and the file at that path holds the payloads of the segments,
  concatenated in playlist order. Its events, in order: the page request (when no
  page was cached), the grab, the playlist request, then for each segment in playlist
  order its request followed at once, and before the next segment's request, by the
  call of the callback with the segment's index and the number of segments (no call
  when no callback was supplied), and last the write of the file.
\<close>

theorem download_reassembles:
  assumes provider: "Episode_get_provider E True False ep w = (Inr provider_url, ep1, w1)"
    and grab: "grab_request_op E provider_url w1 = (Inr raw, w2)"
    and quality: "utils_parse_qualities E raw quality = Inr url"
    and playlist: "session_get_op E url w2 = (res, w3)"
    and segments: "segments = playlist_segments (r_text res)"
    and responses: "responses = segment_responses E (w_clock w3) segments"
    and payloads: "list_all ok responses"
    and callback: "\<forall>f. looping_callback = Some f
                     \<longrightarrow> (\<forall>i < length segments. f i (length segments) = Inr ())"
    and path1: "path1 = (if ext then path @ ''.mp4'' else path)"
    and result: "result = Episode_download E path quality ext looping_callback ep w"
  shows "fst result = Inr path1
         \<and> w_files (snd (snd result)) = (w_files w)(path1 \<mapsto> concat (map r_content responses))
         \<and> w_trace (snd (snd result))
             = w_trace w
               @ (if e_cache ep = None then [GetPage (e_url ep)] else [])
               @ [Grab provider_url, Get url]
               @ concat (map (segment_events looping_callback (length segments))
                           (enumerate 0 segments))
               @ [Write path1 (concat (map r_content responses))]"
proof -
  have w1: "w_files w1 = w_files w"
    "w_trace w1 = w_trace w @ (if e_cache ep = None then [GetPage (e_url ep)] else [])"
    using Episode_get_provider_world [OF provider] by auto
  have w2: "w_files w2 = w_files w1" "w_trace w2 = w_trace w1 @ [Grab provider_url]"
    using grab by (auto simp: grab_request_op_def)
  have w3: "w_files w3 = w_files w2" "w_trace w3 = w_trace w2 @ [Get url]"
    using playlist by (auto simp: session_get_op_def)
  have loop: "fetch_segments E looping_callback (length segments) (enumerate 0 segments) [] w3 =
     (Inr ([] @ concat (map r_content (segment_responses E (w_clock w3) segments))),
      w3\<lparr>w_clock := w_clock w3 + length segments,
        w_trace := w_trace w3 @ concat (map (segment_events looping_callback (length segments))
                                         (enumerate 0 segments))\<rparr>)"
    using payloads callback unfolding responses by (intro fetch_segments_ok) simp_all
  have "result =
     (Inr path1, ep1,
      write_file path1 (concat (map r_content responses))
        (w3\<lparr>w_clock := w_clock w3 + length segments,
           w_trace := w_trace w3 @ concat (map (segment_events looping_callback (length segments))
                                            (enumerate 0 segments))\<rparr>))"
    unfolding result Episode_download_def
    by (simp add: provider grab quality playlist segments [symmetric] bar_def loop
          responses [symmetric] path1 Let_def)
  then show ?thesis
    by (simp add: write_file_def w1 w2 w3)
qed


text \<open>The small site, evaluated.\<close>

lemmas demo_site = demo_env_def demo_world_def demo_episode_def demo_anime_def demo_playlist_def
  demo_show_page_def demo_episode_page_def Episode_def Anime_def

lemma demo_provider:
  "Episode_get_provider demo_env True False demo_episode demo_world =
     (Inr ''https://p/embed/1'',
      demo_episode\<lparr>e_cache := Some demo_episode_page, e_provider := VStr ''https://p/embed/1''\<rparr>,
      demo_world\<lparr>w_clock := 1, w_trace := [GetPage ''https://s/episode/1-show-01_vostfr'']\<rparr>)"
  by (simp add: Episode_get_provider_def Episode_get_page_result get_dyna_result Let_def demo_site
        ok_def find_first_def find_all_def attrs_getitem_def getitem_def split_def startswith_def)

lemma demo_segments:
  "playlist_segments demo_playlist = [''https://c/0.ts'', ''https://c/1.ts'', ''https://c/2.ts'']"
  by (simp add: playlist_segments_def demo_playlist_def split_def startswith_def)

text \<open>
  The theorem on the small site: three segments with the payloads \<open>A\<close>, \<open>B\<close>,
  \<open>C\<close> give the file \<open>ABC\<close>, and the callback is called with (0, 3), (1, 3),
  (2, 3), each call between its segment's request and the next.
\<close>

theorem download_reassembles_witness:
  "fst (Episode_download demo_env ''out/a'' Best True (Some (\<lambda>i n. Inr ())) demo_episode demo_world)
     = Inr ''out/a.mp4''
   \<and> w_files (snd (snd (Episode_download demo_env ''out/a'' Best True (Some (\<lambda>i n. Inr ()))
                          demo_episode demo_world))) ''out/a.mp4''
       = Some [0x41, 0x42, 0x43]
   \<and> w_trace (snd (snd (Episode_download demo_env ''out/a'' Best True (Some (\<lambda>i n. Inr ()))
                          demo_episode demo_world)))
       = [GetPage ''https://s/episode/1-show-01_vostfr'', Grab ''https://p/embed/1'',
          Get ''https://c/list.m3u8'',
          Get ''https://c/0.ts'', Callback 0 3, Get ''https://c/1.ts'', Callback 1 3,
          Get ''https://c/2.ts'', Callback 2 3,
          Write ''out/a.mp4'' [0x41, 0x42, 0x43]]"
proof -
  let ?w1 = "demo_world\<lparr>w_clock := 1, w_trace := [GetPage ''https://s/episode/1-show-01_vostfr'']\<rparr>"
  let ?w2 = "?w1\<lparr>w_clock := 2, w_trace := w_trace ?w1 @ [Grab ''https://p/embed/1'']\<rparr>"
  let ?w3 = "?w2\<lparr>w_clock := 3, w_trace := w_trace ?w2 @ [Get ''https://c/list.m3u8'']\<rparr>"
  let ?res = "\<lparr>r_status_code = 200, r_text = demo_playlist, r_content = []\<rparr>"
  let ?segments = "[''https://c/0.ts'', ''https://c/1.ts'', ''https://c/2.ts'']"
  let ?responses = "[\<lparr>r_status_code = 200, r_text = [], r_content = [0x41 :: byte]\<rparr>,
                     \<lparr>r_status_code = 200, r_text = [], r_content = [0x42]\<rparr>,
                     \<lparr>r_status_code = 200, r_text = [], r_content = [0x43]\<rparr>]"
  have grab: "grab_request_op demo_env ''https://p/embed/1'' ?w1 = (Inr ''manifest'', ?w2)"
    by (simp add: grab_request_op_def demo_env_def demo_world_def)
  have quality: "utils_parse_qualities demo_env ''manifest'' Best = Inr ''https://c/list.m3u8''"
    by (simp add: demo_env_def)
  have playlist: "session_get_op demo_env ''https://c/list.m3u8'' ?w2 = (?res, ?w3)"
    by (simp add: session_get_op_def demo_env_def demo_world_def)
  have segments: "?segments = playlist_segments (r_text ?res)"
    by (simp add: demo_segments)
  have responses: "?responses = segment_responses demo_env (w_clock ?w3) ?segments"
    by (simp add: demo_env_def)
  have payloads: "list_all ok ?responses"
    by (simp add: ok_def)
  have callback: "\<forall>f. Some (\<lambda>i n. Inr ()) = Some f
                    \<longrightarrow> (\<forall>i < length ?segments. f i (length ?segments) = (Inr () :: py_error + unit))"
    by auto
  from download_reassembles [where ext = True and path = "''out/a''",
      OF demo_provider grab quality playlist segments responses payloads callback refl refl]
  show ?thesis
    by (simp add: segment_events_def enumerate_eq_zip demo_world_def demo_episode_def Episode_def)
qed

text \<open>
  C2, as amended. Let the stages before the segment loop succeed, let the segments
  before one segment be fetched with success (the callback returning), and let that
  segment's response carry a status code from 400 to 599. Then \<open>Episode.download\<close>
  raises \<open>FetchingErorr\<close> with the body and the status code of that response. The
  files are as they were before the call: nothing is written, and the payloads
  fetched so far are in no file and not in the exception. The failed request is the
  last event: it is not repeated, and no later segment is requested.
\<close>

theorem download_aborts_on_failed_segment:
  assumes provider: "Episode_get_provider E True False ep w = (Inr provider_url, ep1, w1)"
    and grab: "grab_request_op E provider_url w1 = (Inr raw, w2)"
    and quality: "utils_parse_qualities E raw quality = Inr url"
    and playlist: "session_get_op E url w2 = (res, w3)"
    and segments: "playlist_segments (r_text res) = fetched @ link # rest"
    and fetched: "list_all ok (segment_responses E (w_clock w3) fetched)"
    and segment: "segment = session_get E (w_clock w3 + length fetched) link"
    and failed: "400 \<le> r_status_code segment \<and> r_status_code segment < 600"
    and callback: "\<forall>f. looping_callback = Some f
                     \<longrightarrow> (\<forall>i < length fetched. f i (length (fetched @ link # rest)) = Inr ())"
    and result: "result = Episode_download E path quality ext looping_callback ep w"
  shows "fst result = Inl (FetchingErorr (r_text segment) (r_status_code segment))
         \<and> w_files (snd (snd result)) = w_files w
         \<and> w_trace (snd (snd result))
             = w_trace w
               @ (if e_cache ep = None then [GetPage (e_url ep)] else [])
               @ [Grab provider_url, Get url]
               @ concat (map (segment_events looping_callback (length (fetched @ link # rest)))
                           (enumerate 0 fetched))
               @ [Get link]"
proof -
  have w1: "w_files w1 = w_files w"
    "w_trace w1 = w_trace w @ (if e_cache ep = None then [GetPage (e_url ep)] else [])"
    using Episode_get_provider_world [OF provider] by auto
  have w2: "w_files w2 = w_files w1" "w_trace w2 = w_trace w1 @ [Grab provider_url]"
    using grab by (auto simp: grab_request_op_def)
  have w3: "w_files w3 = w_files w2" "w_trace w3 = w_trace w2 @ [Get url]"
    using playlist by (auto simp: session_get_op_def)
  let ?n = "length (fetched @ link # rest)"
  have not_ok: "\<not> ok segment"
    using failed by (simp add: ok_def)
  have loop: "fetch_segments E looping_callback ?n (enumerate 0 (fetched @ link # rest)) [] w3 =
     (Inl (FetchingErorr (r_text (session_get E (w_clock w3 + length fetched) link))
                         (r_status_code (session_get E (w_clock w3 + length fetched) link))),
      w3\<lparr>w_clock := Suc (w_clock w3 + length fetched),
        w_trace := w_trace w3 @ concat (map (segment_events looping_callback ?n) (enumerate 0 fetched))
                     @ [Get link]\<rparr>)"
    using fetched not_ok callback unfolding segment by (intro fetch_segments_fails) simp_all
  have "result =
     (Inl (FetchingErorr (r_text segment) (r_status_code segment)), ep1,
      w3\<lparr>w_clock := Suc (w_clock w3 + length fetched),
        w_trace := w_trace w3 @ concat (map (segment_events looping_callback ?n) (enumerate 0 fetched))
                     @ [Get link]\<rparr>)"
    unfolding result Episode_download_def
    by (simp add: provider grab quality playlist segments bar_def loop segment Let_def
             del: length_append)
  then show ?thesis
    by (simp add: w1 w2 w3)
qed

text \<open>
  The theorem on the small site when the last of the three segments answers 404.
\<close>

theorem download_aborts_on_failed_segment_witness:
  "fst (Episode_download demo_env_gone ''out/a'' Best True (Some (\<lambda>i n. Inr ()))
          demo_episode demo_world)
     = Inl (FetchingErorr ''gone'' 404)
   \<and> w_files (snd (snd (Episode_download demo_env_gone ''out/a'' Best True (Some (\<lambda>i n. Inr ()))
                          demo_episode demo_world))) = Map.empty
   \<and> w_trace (snd (snd (Episode_download demo_env_gone ''out/a'' Best True (Some (\<lambda>i n. Inr ()))
                          demo_episode demo_world)))
       = [GetPage ''https://s/episode/1-show-01_vostfr'', Grab ''https://p/embed/1'',
          Get ''https://c/list.m3u8'',
          Get ''https://c/0.ts'', Callback 0 3, Get ''https://c/1.ts'', Callback 1 3,
          Get ''https://c/2.ts'']"
proof -
  let ?w1 = "demo_world\<lparr>w_clock := 1, w_trace := [GetPage ''https://s/episode/1-show-01_vostfr'']\<rparr>"
  let ?w2 = "?w1\<lparr>w_clock := 2, w_trace := w_trace ?w1 @ [Grab ''https://p/embed/1'']\<rparr>"
  let ?w3 = "?w2\<lparr>w_clock := 3, w_trace := w_trace ?w2 @ [Get ''https://c/list.m3u8'']\<rparr>"
  let ?res = "\<lparr>r_status_code = 200, r_text = demo_playlist, r_content = []\<rparr>"
  let ?segment = "\<lparr>r_status_code = 404, r_text = ''gone'', r_content = [0x58 :: byte]\<rparr>"
  have provider: "Episode_get_provider demo_env_gone True False demo_episode demo_world =
     (Inr ''https://p/embed/1'',
      demo_episode\<lparr>e_cache := Some demo_episode_page, e_provider := VStr ''https://p/embed/1''\<rparr>,
      ?w1)"
    by (simp add: Episode_get_provider_def Episode_get_page_result get_dyna_result Let_def demo_site
          demo_env_gone_def ok_def find_first_def find_all_def attrs_getitem_def getitem_def
          split_def startswith_def)
  have grab: "grab_request_op demo_env_gone ''https://p/embed/1'' ?w1 = (Inr ''manifest'', ?w2)"
    by (simp add: grab_request_op_def demo_env_gone_def demo_env_def demo_world_def)
  have quality: "utils_parse_qualities demo_env_gone ''manifest'' Best = Inr ''https://c/list.m3u8''"
    by (simp add: demo_env_gone_def demo_env_def)
  have playlist: "session_get_op demo_env_gone ''https://c/list.m3u8'' ?w2 = (?res, ?w3)"
    by (simp add: session_get_op_def demo_env_gone_def demo_env_def demo_world_def)
  have segments: "playlist_segments (r_text ?res)
                    = [''https://c/0.ts'', ''https://c/1.ts''] @ ''https://c/2.ts'' # []"
    by (simp add: demo_segments)
  have fetched: "list_all ok (segment_responses demo_env_gone (w_clock ?w3)
                                [''https://c/0.ts'', ''https://c/1.ts''])"
    by (simp add: demo_env_gone_def demo_env_def ok_def)
  have segment: "?segment = session_get demo_env_gone
                              (w_clock ?w3 + length [''https://c/0.ts'', ''https://c/1.ts''])
                              ''https://c/2.ts''"
    by (simp add: demo_env_gone_def)
  have failed: "400 \<le> r_status_code ?segment \<and> r_status_code ?segment < 600"
    by simp
  have callback: "\<forall>f. Some (\<lambda>i n. Inr ()) = Some f
                    \<longrightarrow> (\<forall>i < length [''https://c/0.ts'', ''https://c/1.ts''].
                           f i (length ([''https://c/0.ts'', ''https://c/1.ts''] @ ''https://c/2.ts'' # []))
                             = (Inr () :: py_error + unit))"
    by auto
  from download_aborts_on_failed_segment [where ext = True and path = "''out/a''",
      OF provider grab quality playlist segments fetched segment failed callback refl]
  show ?thesis
    by (simp add: segment_events_def enumerate_eq_zip demo_world_def demo_episode_def Episode_def)
qed

text \<open>
  C2 as the spec states it fails. A status that is not a success need not be one the
  download stops at: on the small site when the last of the three segments answers
  304 with no body, \<open>Episode.download\<close> raises nothing, returns the path and
  writes a file that holds the first two payloads only.
\<close>

theorem download_not_modified_counterexample:
  "r_status_code (session_get demo_env_not_modified 5 ''https://c/2.ts'') = 304
   \<and> fst (Episode_download demo_env_not_modified ''out/a'' Best True None demo_episode demo_world)
       = Inr ''out/a.mp4''
   \<and> w_files (snd (snd (Episode_download demo_env_not_modified ''out/a'' Best True None
                          demo_episode demo_world))) ''out/a.mp4''
       = Some [0x41, 0x42]
   \<and> w_trace (snd (snd (Episode_download demo_env_not_modified ''out/a'' Best True None
                          demo_episode demo_world)))
       = [GetPage ''https://s/episode/1-show-01_vostfr'', Grab ''https://p/embed/1'',
          Get ''https://c/list.m3u8'',
          Get ''https://c/0.ts'', Get ''https://c/1.ts'', Get ''https://c/2.ts'',
          Write ''out/a.mp4'' [0x41, 0x42]]"
proof -
  have provider: "Episode_get_provider demo_env_not_modified True False demo_episode demo_world =
     (Inr ''https://p/embed/1'',
      demo_episode\<lparr>e_cache := Some demo_episode_page, e_provider := VStr ''https://p/embed/1''\<rparr>,
      demo_world\<lparr>w_clock := 1, w_trace := [GetPage ''https://s/episode/1-show-01_vostfr'']\<rparr>)"
    by (simp add: Episode_get_provider_def Episode_get_page_result get_dyna_result Let_def demo_site
          demo_env_not_modified_def ok_def find_first_def find_all_def attrs_getitem_def
          getitem_def split_def startswith_def)
  have status: "r_status_code (session_get demo_env_not_modified 5 ''https://c/2.ts'') = 304"
    by (simp add: demo_env_not_modified_def)
  have run: "Episode_download demo_env_not_modified ''out/a'' Best True None demo_episode demo_world =
     (Inr ''out/a.mp4'',
      demo_episode\<lparr>e_cache := Some demo_episode_page, e_provider := VStr ''https://p/embed/1''\<rparr>,
      demo_world\<lparr>w_clock := 6,
        w_trace := [GetPage ''https://s/episode/1-show-01_vostfr'', Grab ''https://p/embed/1'',
                    Get ''https://c/list.m3u8'',
                    Get ''https://c/0.ts'', Get ''https://c/1.ts'', Get ''https://c/2.ts'',
                    Write ''out/a.mp4'' [0x41, 0x42]],
        w_files := [''out/a.mp4'' \<mapsto> [0x41, 0x42]]\<rparr>)"
    unfolding Episode_download_def provider
    by (simp add: grab_request_op_def session_get_op_def demo_env_not_modified_def demo_env_def
          demo_segments bar_def enumerate_eq_zip ok_def write_file_def Let_def demo_world_def)
  show ?thesis
    by (simp add: run status)
qed

section \<open>Downloading a show\<close>

lemma batch_events_append: "batch_events (xs @ ys) = batch_events xs @ batch_events ys"
  by (induction xs rule: batch_events.induct) simp_all

text \<open>The segment loop writes no file and sleeps no pause, however it ends.\<close>

lemma fetch_segments_batch:
  "fetch_segments E cb n items content w = (r, w1) \<Longrightarrow>
     batch_events (w_trace w1) = batch_events (w_trace w)"
proof (induction E cb n items content w rule: fetch_segments.induct)
  case (1 E cb n content w)
  then show ?case by simp
next
  case (2 E cb n i link rest content w)
  let ?seg = "session_get E (w_clock w) link"
  let ?w1 = "w\<lparr>w_clock := Suc (w_clock w), w_trace := w_trace w @ [Get link]\<rparr>"
  have sg: "session_get_op E link w = (?seg, ?w1)" by (simp add: session_get_op_def)
  show ?case
  proof (cases "ok ?seg")
    case False
    with "2.prems" sg show ?thesis by (auto simp: batch_events_append)
  next
    case True
    obtain cr w2 where cb: "(case cb of None \<Rightarrow> (Inr (), ?w1)
                              | Some f \<Rightarrow> call_callback f i n ?w1) = (cr, w2)"
      by (metis surj_pair)
    have w2: "batch_events (w_trace w2) = batch_events (w_trace w)"
      using cb by (cases cb) (auto simp: call_callback_def batch_events_append)
    show ?thesis
    proof (cases cr)
      case (Inl err)
      with "2.prems" sg True cb w2 show ?thesis by simp
    next
      case (Inr u)
      have rec: "fetch_segments E cb n rest (content @ r_content ?seg) w2 = (r, w1)"
        using "2.prems" sg True cb Inr by simp
      have nn: "\<not> \<not> ok ?seg" using True by simp
      from "2.IH" [OF refl sg [symmetric] nn cb [symmetric] Inr rec] w2
      show ?thesis by simp
    qed
  qed
qed


text \<open>A download that returns has written one file, at the path it returns.\<close>

lemma Episode_download_batch:
  assumes "Episode_download E path quality ext cb ep w = (Inr p, ep1, w')"
  shows "p = (if ext then path @ ''.mp4'' else path)
         \<and> batch_events (w_trace w') = batch_events (w_trace w) @ [Inl p]"
proof -
  obtain r1 ep1' w1 where gp: "Episode_get_provider E True False ep w = (r1, ep1', w1)"
    by (metis prod_cases3)
  have t1: "batch_events (w_trace w1) = batch_events (w_trace w)"
    using Episode_get_provider_world [OF gp] by (simp add: batch_events_append)
  from assms gp obtain provider_url where r1: "r1 = Inr provider_url"
    by (cases r1) (auto simp: Episode_download_def)
  obtain r2 w2 where gr: "grab_request_op E provider_url w1 = (r2, w2)"
    by (metis surj_pair)
  have t2: "batch_events (w_trace w2) = batch_events (w_trace w1)"
    using gr by (auto simp: grab_request_op_def batch_events_append)
  from assms gp r1 gr obtain raw where r2: "r2 = Inr raw"
    by (cases r2) (auto simp: Episode_download_def)
  from assms gp r1 gr r2 obtain url where q: "utils_parse_qualities E raw quality = Inr url"
    by (cases "utils_parse_qualities E raw quality") (auto simp: Episode_download_def)
  obtain res w3 where pl: "session_get_op E url w2 = (res, w3)"
    by (metis surj_pair)
  have t3: "batch_events (w_trace w3) = batch_events (w_trace w2)"
    using pl by (auto simp: session_get_op_def batch_events_append)
  let ?segments = "playlist_segments (r_text res)"
  obtain r4 w4 where fs: "fetch_segments E cb (length ?segments)
                            (bar ''Fetching'' (enumerate 0 ?segments)) [] w3 = (r4, w4)"
    by (metis surj_pair)
  have t4: "batch_events (w_trace w4) = batch_events (w_trace w3)"
    using fetch_segments_batch [OF fs] .
  from assms gp r1 gr r2 q pl fs obtain content where r4: "r4 = Inr content"
    by (cases r4) (auto simp: Episode_download_def Let_def)
  from assms gp r1 gr r2 q pl fs r4
  have "p = (if ext then path @ ''.mp4'' else path)" "w' = write_file p content w4"
    by (auto simp: Episode_download_def Let_def)
  then show ?thesis
    using t1 t2 t3 t4 by (simp add: write_file_def batch_events_append)
qed

text \<open>
  The loop of \<open>Anime.download\<close> when it returns: the paths, the run of downloads and
  pauses it went through, and the files and pauses seen from outside.
\<close>

lemma download_loop_batch:
  "download_loop E dir pause quality seen eps pathes an w = (Inr paths, an', w') \<Longrightarrow>
     paths = pathes @ map (\<lambda>e. dir @ e_raw_name e @ ''.mp4'') eps
     \<and> batch_run E dir pause quality eps w = Some w'
     \<and> batch_events (w_trace w')
         = batch_events (w_trace w)
           @ concat (map (\<lambda>e. [Inl (dir @ e_raw_name e @ ''.mp4''), Inr pause]) eps)"
proof (induction eps arbitrary: seen pathes an w)
  case Nil
  then show ?case by simp
next
  case (Cons episode rest)
  let ?ep_path = "dir @ e_raw_name episode @ ''.mp4''"
  obtain r episode1 w1 where dl: "Episode_download E ?ep_path quality False None episode w = (r, episode1, w1)"
    by (metis prod_cases3)
  from Cons.prems dl obtain p where r: "r = Inr p"
    by (cases r) (auto simp: Let_def)
  have ev: "batch_events (w_trace w1) = batch_events (w_trace w) @ [Inl ?ep_path]"
    using Episode_download_batch [OF dl [unfolded r]] by simp
  have run: "batch_run E dir pause quality (episode # rest) w
               = batch_run E dir pause quality rest (sleep pause w1)"
    using dl r by simp
  have "download_loop E dir pause quality (seen @ [episode1]) rest (pathes @ [?ep_path])
          (an\<lparr>a_episodes := Some (seen @ episode1 # rest)\<rparr>) (sleep pause w1) = (Inr paths, an', w')"
    using Cons.prems dl r by (simp add: Let_def)
  from Cons.IH [OF this] ev run show ?case
    by (simp add: sleep_def batch_events_append)
qed

lemma Anime_get_page_world:
  "Anime_get_page E cache force an w = (r, an1, w1) \<Longrightarrow>
     w_files w1 = w_files w
     \<and> w_trace w1 = w_trace w @ (if a_cache an \<noteq> None \<and> \<not> force then [] else [GetPage (a_url an)])
     \<and> w_clock w1 = w_clock w + (if a_cache an \<noteq> None \<and> \<not> force then 0 else 1)
     \<and> r = Inr (if a_cache an \<noteq> None \<and> \<not> force then the (a_cache an)
                 else r_html (html_session_get E (w_clock w) (a_url an)))"
  by (auto simp: Anime_get_page_result get_dyna_result Let_def log_err_def)

lemma sorted_wrt_less_sort_remdups: "sorted_wrt (<) (sort (remdups (xs :: 'a :: linorder list)))"
  by (simp add: strict_sorted_iff)

text \<open>
  C7, as amended. Let \<open>Anime.download\<close> return. The episodes are those of the
  page's listing: the first link of every listed element that has links, without
  duplicates, in strictly ascending order of URL. In that order, one after the other,
  each episode is downloaded by \<open>Episode.download\<close> to the directory (a separator is
  appended when the path does not end in one) followed by the episode's raw name, the
  name parsed from its URL (not the formatted display name), and \<open>.mp4\<close>: the world
  after the call is the world of this run of downloads, started in the world the
  fetch of the listing left, each download starting where the one before it and its
  pause ended. Between the files of two successive episodes exactly one pause is
  slept. The result is the list of these paths in download order.
\<close>

theorem batch_download:
  assumes returned: "fst (Anime_download E path pause quality an w) = Inr paths"
    and page: "page = (case a_cache an of Some cached \<Rightarrow> cached
                       | None \<Rightarrow> r_html (html_session_get E (w_clock w) (a_url an)))"
    and links: "links = map (\<lambda>el. hd (el_absolute_links el))
                          (filter (\<lambda>el. el_absolute_links el \<noteq> [])
                             (find_all page ''.js-list-episode-container *''))"
    and urls: "urls = sort (remdups links)"
    and dir: "dir = (if last path = CHR ''/'' \<or> last path = CHR 0x5C then path else path @ ''/'')"
    and start: "start = snd (snd (Anime_get_page E True False an w))"
  shows "sorted_wrt (<) urls \<and> set urls = set links
         \<and> paths = map (\<lambda>u. dir @ utils_parse_name E u @ ''.mp4'') urls
         \<and> batch_run E dir pause quality (map (Episode E) urls) start
             = Some (snd (snd (Anime_download E path pause quality an w)))
         \<and> batch_events (w_trace (snd (snd (Anime_download E path pause quality an w))))
             = batch_events (w_trace w) @ concat (map (\<lambda>p. [Inl p, Inr pause]) paths)"
proof -
  have ne: "path \<noteq> []"
    using returned by (auto simp: Anime_download_def)
  obtain r0 an0 w0 where gp: "Anime_get_page E True False an w = (r0, an0, w0)"
    by (metis prod_cases3)
  have r0: "r0 = Inr page" and t0: "batch_events (w_trace w0) = batch_events (w_trace w)"
    using Anime_get_page_world [OF gp] page by (auto simp: batch_events_append)
  have w0: "start = w0"
    using start gp by simp
  let ?an1 = "an0\<lparr>a_episodes := Some (map (Episode E) urls)\<rparr>"
  have ge: "Anime_get_episodes E None True False an w = (Inr (map (Episode E) urls), ?an1, w0)"
    by (simp add: Anime_get_episodes_def gp r0 links urls Let_def)
  obtain r an' w' where dl: "download_loop E dir pause quality [] (map (Episode E) urls) [] ?an1 w0 = (r, an', w')"
    by (metis prod_cases3)
  have whole: "Anime_download E path pause quality an w = (r, an', w')"
    using ne dl by (auto simp: Anime_download_def ge dir Let_def)
  then have r: "r = Inr paths" using returned by simp
  from download_loop_batch [OF dl [unfolded r]]
  have paths: "paths = map (\<lambda>u. dir @ utils_parse_name E u @ ''.mp4'') urls"
    and run: "batch_run E dir pause quality (map (Episode E) urls) w0 = Some w'"
    and ev: "batch_events (w_trace w')
              = batch_events (w_trace w0)
                @ concat (map (\<lambda>e. [Inl (dir @ e_raw_name e @ ''.mp4''), Inr pause]) (map (Episode E) urls))"
    by (simp_all add: Episode_def comp_def)
  have "concat (map (\<lambda>e. [Inl (dir @ e_raw_name e @ ''.mp4''), Inr pause]) (map (Episode E) urls))
          = concat (map (\<lambda>p. [Inl p, Inr pause]) paths)"
    unfolding paths by (simp add: Episode_def comp_def)
  with ev t0 have "batch_events (w_trace w')
                     = batch_events (w_trace w) @ concat (map (\<lambda>p. [Inl p, Inr pause]) paths)"
    by simp
  moreover have "sorted_wrt (<) urls" "set urls = set links"
    unfolding urls by (simp_all add: sorted_wrt_less_sort_remdups)
  ultimately show ?thesis
    using paths whole run w0 by simp
qed

text \<open>
  The small site's downloads, for any function that formats a raw name into the
  display name.
\<close>

lemma demo_download:
  assumes "u \<noteq> ''https://s/info/1-show_vostfr''"
  shows "Episode_download (demo_env\<lparr>utils_format_name := f\<rparr>) p q False None
           (Episode (demo_env\<lparr>utils_format_name := f\<rparr>) u) w =
     (Inr p,
      (Episode (demo_env\<lparr>utils_format_name := f\<rparr>) u)
        \<lparr>e_cache := Some demo_episode_page, e_provider := VStr ''https://p/embed/1''\<rparr>,
      w\<lparr>w_clock := w_clock w + 6,
        w_trace := w_trace w @ [GetPage u, Grab ''https://p/embed/1'', Get ''https://c/list.m3u8'',
                               Get ''https://c/0.ts'', Get ''https://c/1.ts'', Get ''https://c/2.ts'',
                               Write p [0x41, 0x42, 0x43]],
        w_files := (w_files w)(p \<mapsto> [0x41, 0x42, 0x43])\<rparr>)"
proof -
  let ?E = "demo_env\<lparr>utils_format_name := f\<rparr>"
  have provider: "Episode_get_provider ?E True False (Episode ?E u) w =
     (Inr ''https://p/embed/1'',
      (Episode ?E u)\<lparr>e_cache := Some demo_episode_page, e_provider := VStr ''https://p/embed/1''\<rparr>,
      w\<lparr>w_clock := Suc (w_clock w), w_trace := w_trace w @ [GetPage u]\<rparr>)"
    using assms
    by (simp add: Episode_get_provider_def Episode_get_page_result get_dyna_result Let_def
          demo_env_def demo_episode_page_def Episode_def ok_def find_first_def find_all_def
          attrs_getitem_def getitem_def split_def startswith_def)
  show ?thesis
    unfolding Episode_download_def provider
    by (simp add: grab_request_op_def session_get_op_def demo_env_def demo_segments bar_def
          enumerate_eq_zip ok_def write_file_def Let_def)
qed

lemma demo_episodes:
  "Anime_get_episodes (demo_env\<lparr>utils_format_name := f\<rparr>) None True False
     (Anime (demo_env\<lparr>utils_format_name := f\<rparr>) ''https://s/info/1-show_vostfr'') demo_world =
     (Inr [Episode (demo_env\<lparr>utils_format_name := f\<rparr>) ''https://s/episode/1-show-01_vostfr'',
           Episode (demo_env\<lparr>utils_format_name := f\<rparr>) ''https://s/episode/1-show-02_vostfr''],
      (Anime (demo_env\<lparr>utils_format_name := f\<rparr>) ''https://s/info/1-show_vostfr'')
        \<lparr>a_cache := Some demo_show_page,
         a_episodes := Some
           [Episode (demo_env\<lparr>utils_format_name := f\<rparr>) ''https://s/episode/1-show-01_vostfr'',
            Episode (demo_env\<lparr>utils_format_name := f\<rparr>) ''https://s/episode/1-show-02_vostfr'']\<rparr>,
      demo_world\<lparr>w_clock := 1, w_trace := [GetPage ''https://s/info/1-show_vostfr'']\<rparr>)"
proof -
  let ?E = "demo_env\<lparr>utils_format_name := f\<rparr>"
  have page: "Anime_get_page ?E True False (Anime ?E ''https://s/info/1-show_vostfr'') demo_world =
     (Inr demo_show_page, (Anime ?E ''https://s/info/1-show_vostfr'')\<lparr>a_cache := Some demo_show_page\<rparr>,
      demo_world\<lparr>w_clock := 1, w_trace := [GetPage ''https://s/info/1-show_vostfr'']\<rparr>)"
    by (simp add: Anime_get_page_result get_dyna_result Let_def demo_env_def
          Anime_def demo_world_def ok_def)
  have urls: "sort (remdups (map (\<lambda>ep. hd (el_absolute_links ep))
                 (filter (\<lambda>ep. el_absolute_links ep \<noteq> [])
                    (find_all demo_show_page ''.js-list-episode-container *''))))
              = [''https://s/episode/1-show-01_vostfr'', ''https://s/episode/1-show-02_vostfr'']"
    by (simp add: find_all_def demo_show_page_def)
  show ?thesis
    unfolding Anime_get_episodes_def page
    by (simp add: urls Let_def)
qed

lemma demo_raw_name_any:
  "e_raw_name (Episode (demo_env\<lparr>utils_format_name := f\<rparr>) ''https://s/episode/1-show-01_vostfr'')
     = ''1-show-01_vostfr''"
  "e_raw_name (Episode (demo_env\<lparr>utils_format_name := f\<rparr>) ''https://s/episode/1-show-02_vostfr'')
     = ''1-show-02_vostfr''"
  by (simp_all add: Episode_def demo_env_def split_def startswith_def)

lemma demo_raw_name:
  "e_raw_name (Episode demo_env ''https://s/episode/1-show-01_vostfr'') = ''1-show-01_vostfr''"
  "e_raw_name (Episode demo_env ''https://s/episode/1-show-02_vostfr'') = ''1-show-02_vostfr''"
  "e_name (Episode demo_env ''https://s/episode/1-show-01_vostfr'') = ''1 show 01 vostfr''"
  "e_name (Episode demo_env ''https://s/episode/1-show-02_vostfr'') = ''1 show 02 vostfr''"
  by (simp_all add: Episode_def demo_env_def split_def startswith_def)

lemma demo_batch_any:
  "Anime_download (demo_env\<lparr>utils_format_name := f\<rparr>) ''out'' 5 Best
     (Anime (demo_env\<lparr>utils_format_name := f\<rparr>) ''https://s/info/1-show_vostfr'') demo_world =
     (Inr [''out/1-show-01_vostfr.mp4'', ''out/1-show-02_vostfr.mp4''],
      (Anime (demo_env\<lparr>utils_format_name := f\<rparr>) ''https://s/info/1-show_vostfr'')
        \<lparr>a_cache := Some demo_show_page,
         a_episodes := Some
          [(Episode (demo_env\<lparr>utils_format_name := f\<rparr>) ''https://s/episode/1-show-01_vostfr'')
             \<lparr>e_cache := Some demo_episode_page, e_provider := VStr ''https://p/embed/1''\<rparr>,
           (Episode (demo_env\<lparr>utils_format_name := f\<rparr>) ''https://s/episode/1-show-02_vostfr'')
             \<lparr>e_cache := Some demo_episode_page, e_provider := VStr ''https://p/embed/1''\<rparr>]\<rparr>,
      demo_world\<lparr>w_clock := 13,
        w_trace :=
          [GetPage ''https://s/info/1-show_vostfr'',
           GetPage ''https://s/episode/1-show-01_vostfr'', Grab ''https://p/embed/1'',
           Get ''https://c/list.m3u8'', Get ''https://c/0.ts'', Get ''https://c/1.ts'',
           Get ''https://c/2.ts'', Write ''out/1-show-01_vostfr.mp4'' [0x41, 0x42, 0x43], Sleep 5,
           GetPage ''https://s/episode/1-show-02_vostfr'', Grab ''https://p/embed/1'',
           Get ''https://c/list.m3u8'', Get ''https://c/0.ts'', Get ''https://c/1.ts'',
           Get ''https://c/2.ts'', Write ''out/1-show-02_vostfr.mp4'' [0x41, 0x42, 0x43], Sleep 5],
        w_files := [''out/1-show-01_vostfr.mp4'' \<mapsto> [0x41, 0x42, 0x43],
                    ''out/1-show-02_vostfr.mp4'' \<mapsto> [0x41, 0x42, 0x43]]\<rparr>)"
  unfolding Anime_download_def demo_episodes
  by (simp add: demo_download demo_raw_name_any sleep_def demo_world_def Let_def)

lemma demo_env_format: "demo_env\<lparr>utils_format_name := utils_format_name demo_env\<rparr> = demo_env"
  by simp

lemma demo_batch:
  "Anime_download demo_env ''out'' 5 Best demo_anime demo_world =
     (Inr [''out/1-show-01_vostfr.mp4'', ''out/1-show-02_vostfr.mp4''],
      demo_anime\<lparr>a_cache := Some demo_show_page,
        a_episodes := Some
          [(Episode demo_env ''https://s/episode/1-show-01_vostfr'')
             \<lparr>e_cache := Some demo_episode_page, e_provider := VStr ''https://p/embed/1''\<rparr>,
           (Episode demo_env ''https://s/episode/1-show-02_vostfr'')
             \<lparr>e_cache := Some demo_episode_page, e_provider := VStr ''https://p/embed/1''\<rparr>]\<rparr>,
      demo_world\<lparr>w_clock := 13,
        w_trace :=
          [GetPage ''https://s/info/1-show_vostfr'',
           GetPage ''https://s/episode/1-show-01_vostfr'', Grab ''https://p/embed/1'',
           Get ''https://c/list.m3u8'', Get ''https://c/0.ts'', Get ''https://c/1.ts'',
           Get ''https://c/2.ts'', Write ''out/1-show-01_vostfr.mp4'' [0x41, 0x42, 0x43], Sleep 5,
           GetPage ''https://s/episode/1-show-02_vostfr'', Grab ''https://p/embed/1'',
           Get ''https://c/list.m3u8'', Get ''https://c/0.ts'', Get ''https://c/1.ts'',
           Get ''https://c/2.ts'', Write ''out/1-show-02_vostfr.mp4'' [0x41, 0x42, 0x43], Sleep 5],
        w_files := [''out/1-show-01_vostfr.mp4'' \<mapsto> [0x41, 0x42, 0x43],
                    ''out/1-show-02_vostfr.mp4'' \<mapsto> [0x41, 0x42, 0x43]]\<rparr>)"
  using demo_batch_any [of "utils_format_name demo_env"]
  unfolding demo_env_format demo_anime_def .

text \<open>
  The theorem on the small site, whose listing names the second episode first and
  twice: the run requests and writes each episode's three segments, the first
  episode's before the second's.
\<close>

theorem batch_download_witness:
  "fst (Anime_download demo_env ''out'' 5 Best demo_anime demo_world)
     = Inr [''out/1-show-01_vostfr.mp4'', ''out/1-show-02_vostfr.mp4'']
   \<and> sorted_wrt (<) [''https://s/episode/1-show-01_vostfr'', ''https://s/episode/1-show-02_vostfr'']
   \<and> batch_run demo_env ''out/'' 5 Best
         [Episode demo_env ''https://s/episode/1-show-01_vostfr'',
          Episode demo_env ''https://s/episode/1-show-02_vostfr'']
         (demo_world\<lparr>w_clock := 1, w_trace := [GetPage ''https://s/info/1-show_vostfr'']\<rparr>)
       = Some (snd (snd (Anime_download demo_env ''out'' 5 Best demo_anime demo_world)))
   \<and> w_trace (snd (snd (Anime_download demo_env ''out'' 5 Best demo_anime demo_world)))
       = [GetPage ''https://s/info/1-show_vostfr'',
          GetPage ''https://s/episode/1-show-01_vostfr'', Grab ''https://p/embed/1'',
          Get ''https://c/list.m3u8'', Get ''https://c/0.ts'', Get ''https://c/1.ts'',
          Get ''https://c/2.ts'', Write ''out/1-show-01_vostfr.mp4'' [0x41, 0x42, 0x43], Sleep 5,
          GetPage ''https://s/episode/1-show-02_vostfr'', Grab ''https://p/embed/1'',
          Get ''https://c/list.m3u8'', Get ''https://c/0.ts'', Get ''https://c/1.ts'',
          Get ''https://c/2.ts'', Write ''out/1-show-02_vostfr.mp4'' [0x41, 0x42, 0x43], Sleep 5]
   \<and> w_files (snd (snd (Anime_download demo_env ''out'' 5 Best demo_anime demo_world)))
       = [''out/1-show-01_vostfr.mp4'' \<mapsto> [0x41, 0x42, 0x43],
          ''out/1-show-02_vostfr.mp4'' \<mapsto> [0x41, 0x42, 0x43]]"
proof -
  let ?links = "[''https://s/episode/1-show-02_vostfr'', ''https://s/episode/1-show-01_vostfr'',
                 ''https://s/episode/1-show-02_vostfr'']"
  let ?urls = "[''https://s/episode/1-show-01_vostfr'', ''https://s/episode/1-show-02_vostfr'']"
  let ?start = "demo_world\<lparr>w_clock := 1, w_trace := [GetPage ''https://s/info/1-show_vostfr'']\<rparr>"
  have returned: "fst (Anime_download demo_env ''out'' 5 Best demo_anime demo_world)
                    = Inr [''out/1-show-01_vostfr.mp4'', ''out/1-show-02_vostfr.mp4'']"
    by (simp add: demo_batch)
  have page: "demo_show_page = (case a_cache demo_anime of Some cached \<Rightarrow> cached
                | None \<Rightarrow> r_html (html_session_get demo_env (w_clock demo_world) (a_url demo_anime)))"
    by (simp add: demo_anime_def Anime_def demo_env_def)
  have links: "?links = map (\<lambda>el. hd (el_absolute_links el))
                          (filter (\<lambda>el. el_absolute_links el \<noteq> [])
                             (find_all demo_show_page ''.js-list-episode-container *''))"
    by (simp add: find_all_def demo_show_page_def)
  have urls: "?urls = sort (remdups ?links)"
    by simp
  have dir: "''out/'' = (if last ''out'' = CHR ''/'' \<or> last ''out'' = CHR 0x5C then ''out''
                         else ''out'' @ ''/'')"
    by simp
  have start: "?start = snd (snd (Anime_get_page demo_env True False demo_anime demo_world))"
    by (simp add: Anime_get_page_result get_dyna_result Let_def demo_env_def demo_anime_def
          Anime_def demo_world_def ok_def)
  from batch_download [OF returned page links urls dir start]
  have "batch_run demo_env ''out/'' 5 Best (map (Episode demo_env) ?urls) ?start
          = Some (snd (snd (Anime_download demo_env ''out'' 5 Best demo_anime demo_world)))"
    by blast
  then show ?thesis
    by (simp add: demo_batch)
qed

text \<open>
  C7 as the spec states it fails on the small site. Whatever function formats the raw
  name into the display name, the two files are named after the episodes' raw names
  \<open>1-show-01_vostfr\<close> and \<open>1-show-02_vostfr\<close>; with the site's formatting the
  normalized names are \<open>1 show 01 vostfr\<close> and \<open>1 show 02 vostfr\<close>, and the
  paths returned are not the paths built from those.
\<close>

theorem batch_download_counterexample:
  "(\<forall>f. fst (Anime_download (demo_env\<lparr>utils_format_name := f\<rparr>) ''out'' 5 Best
              (Anime (demo_env\<lparr>utils_format_name := f\<rparr>) ''https://s/info/1-show_vostfr'')
              demo_world)
          = Inr [''out/1-show-01_vostfr.mp4'', ''out/1-show-02_vostfr.mp4''])
   \<and> fst (Anime_download demo_env ''out'' 5 Best demo_anime demo_world)
       = Inr [''out/1-show-01_vostfr.mp4'', ''out/1-show-02_vostfr.mp4'']
   \<and> map e_raw_name (the (a_episodes (fst (snd
         (Anime_download demo_env ''out'' 5 Best demo_anime demo_world)))))
       = [''1-show-01_vostfr'', ''1-show-02_vostfr'']
   \<and> map e_name (the (a_episodes (fst (snd
         (Anime_download demo_env ''out'' 5 Best demo_anime demo_world)))))
       = [''1 show 01 vostfr'', ''1 show 02 vostfr'']
   \<and> fst (Anime_download demo_env ''out'' 5 Best demo_anime demo_world)
       \<noteq> Inr (map (\<lambda>ep. ''out/'' @ e_name ep @ ''.mp4'')
                (the (a_episodes (fst (snd
                   (Anime_download demo_env ''out'' 5 Best demo_anime demo_world))))))"
  by (simp add: demo_batch demo_batch_any demo_raw_name)

section \<open>Generated attributes\<close>

lemma Anime_get_page_cached:
  "Anime_get_page E True False (an\<lparr>a_cache := Some page\<rparr>) w
     = (Inr page, an\<lparr>a_cache := Some page\<rparr>, w)"
  by (simp add: Anime_get_page_result Let_def)

lemma Episode_get_page_cached:
  "Episode_get_page E True False (ep\<lparr>e_cache := Some page\<rparr>) w
     = (Inr page, ep\<lparr>e_cache := Some page\<rparr>, w)"
  by (simp add: Episode_get_page_result Let_def)

text \<open>The resolvers that store what they return.\<close>

lemma Anime_get_synopsis_stores:
  "Anime_get_synopsis E c f an w = (Inr t, an1, w1) \<Longrightarrow> a_synopsis an1 = VStr t"
  by (auto simp: Anime_get_synopsis_def Anime_get_page_result Let_def split: option.splits)

lemma Anime_get_data_stores:
  "Anime_get_data E c f an w = (Inr d, an1, w1) \<Longrightarrow> a_data an1 = VDict d"
  by (auto simp: Anime_get_data_def Anime_get_page_result Let_def split: prod.splits)

lemma Anime_get_tags_stores:
  "Anime_get_tags E c f an w = (Inr v, an1, w1) \<Longrightarrow> a_tags an1 = v \<and> v \<noteq> VNone"
  by (auto simp: Anime_get_tags_def Anime_get_page_result Let_def split: option.splits sum.splits)

lemma Anime_get_episodes_stores:
  "Anime_get_episodes E flt c f an w = (Inr eps, an1, w1) \<Longrightarrow> a_episodes an1 = Some eps"
  by (auto simp: Anime_get_episodes_def Anime_get_page_result Let_def)

lemma Episode_get_provider_stores:
  assumes "Episode_get_provider E c f ep w = (Inr p, ep1, w1)"
  shows "e_provider ep1 = VStr p"
proof -
  obtain r0 ep0 w0 where gp: "Episode_get_page E c f ep w = (r0, ep0, w0)"
    by (metis prod_cases3)
  from Episode_get_page_world [OF gp] obtain page where r0: "r0 = Inr page" by blast
  show ?thesis
    using assms unfolding Episode_get_provider_def gp r0 Let_def
    by (auto split: sum.splits)
qed

text \<open>
  An attribute whose resolver stores its result is served from the attribute at the
  next read: the second read returns the value of the first and leaves the entity and
  the world as they are, so it issues no request. This holds for the synopsis, the
  data, the tags and the episodes of an anime and for the provider of an episode.
\<close>

lemma cached_attribute_read_again:
  "(name \<in> set [''synopsis'', ''data'', ''tags'', ''episodes'']
      \<and> Anime_getattribute E name an w = (Inr v, an1, w1)
    \<longrightarrow> Anime_getattribute E name an1 w1 = (Inr v, an1, w1))
   \<and> (Episode_getattribute E ''provider'' ep a v' = (Inr u, ep1, a1, v1)
    \<longrightarrow> Episode_getattribute E ''provider'' ep1 a1 v1 = (Inr u, ep1, a1, v1))"
proof (intro conjI impI)
  assume "name \<in> set [''synopsis'', ''data'', ''tags'', ''episodes'']
            \<and> Anime_getattribute E name an w = (Inr v, an1, w1)"
  then have name: "name = ''synopsis'' \<or> name = ''data'' \<or> name = ''tags'' \<or> name = ''episodes''"
    and first: "Anime_getattribute E name an w = (Inr v, an1, w1)"
    by auto
  from name show "Anime_getattribute E name an1 w1 = (Inr v, an1, w1)"
  proof (elim disjE)
    assume n: "name = ''synopsis''"
    show ?thesis
    proof (cases "a_synopsis an = VNone")
      case False
      with first n show ?thesis
        by (auto simp: Anime_getattribute_def Anime_attribute_def)
    next
      case True
      with first n obtain t where "Anime_get_synopsis E True False an w = (Inr t, an1, w1)"
        and v: "v = AVal (VStr t)"
        by (auto simp: Anime_getattribute_def Anime_attribute_def Anime_call_def
                 split: prod.splits sum.splits)
      from Anime_get_synopsis_stores [OF this(1)] v n show ?thesis
        by (simp add: Anime_getattribute_def Anime_attribute_def)
    qed
  next
    assume n: "name = ''data''"
    show ?thesis
    proof (cases "a_data an = VNone")
      case False
      with first n show ?thesis
        by (auto simp: Anime_getattribute_def Anime_attribute_def)
    next
      case True
      with first n obtain d where "Anime_get_data E True False an w = (Inr d, an1, w1)"
        and v: "v = AVal (VDict d)"
        by (auto simp: Anime_getattribute_def Anime_attribute_def Anime_call_def
                 split: prod.splits sum.splits)
      from Anime_get_data_stores [OF this(1)] v n show ?thesis
        by (simp add: Anime_getattribute_def Anime_attribute_def)
    qed
  next
    assume n: "name = ''tags''"
    show ?thesis
    proof (cases "a_tags an = VNone")
      case False
      with first n show ?thesis
        by (auto simp: Anime_getattribute_def Anime_attribute_def)
    next
      case True
      with first n obtain t where "Anime_get_tags E True False an w = (Inr t, an1, w1)"
        and v: "v = AVal t"
        by (auto simp: Anime_getattribute_def Anime_attribute_def Anime_call_def
                 split: prod.splits sum.splits)
      from Anime_get_tags_stores [OF this(1)] v n show ?thesis
        by (simp add: Anime_getattribute_def Anime_attribute_def)
    qed
  next
    assume n: "name = ''episodes''"
    show ?thesis
    proof (cases "a_episodes an")
      case (Some eps)
      with first n show ?thesis
        by (auto simp: Anime_getattribute_def Anime_attribute_def)
    next
      case None
      with first n obtain eps where
        "Anime_get_episodes E None True False an (log_warn ''Deprecated attribute'' w) = (Inr eps, an1, w1)"
        and v: "v = AEpisodes eps"
        by (auto simp: Anime_getattribute_def Anime_attribute_def Anime_call_def
                 split: prod.splits sum.splits)
      from Anime_get_episodes_stores [OF this(1)] v n show ?thesis
        by (simp add: Anime_getattribute_def Anime_attribute_def)
    qed
  qed
next
  assume first: "Episode_getattribute E ''provider'' ep a v' = (Inr u, ep1, a1, v1)"
  show "Episode_getattribute E ''provider'' ep1 a1 v1 = (Inr u, ep1, a1, v1)"
  proof (cases "e_provider ep = VNone")
    case False
    with first show ?thesis
      by (auto simp: Episode_getattribute_def Episode_attribute_def)
  next
    case True
    with first obtain p where "Episode_get_provider E True False ep v' = (Inr p, ep1, v1)"
      and u: "u = VStr p"
      by (auto simp: Episode_getattribute_def Episode_attribute_def Episode_call_def
               split: prod.splits sum.splits)
    from Episode_get_provider_stores [OF this(1)] u show ?thesis
      by (simp add: Episode_getattribute_def Episode_attribute_def)
  qed
qed

text \<open>
  C4 fails on the code. On a page where the selectors find nothing (here the cached
  page is the empty one), the resolvers of the synopsis, the picture, the poster and
  the tags of an anime and of the provider of an episode catch the exception of the
  extraction and report it to the logger, and then read the name the extraction was
  to bind: they raise \<open>UnboundLocalError\<close>. Reading the attribute \<open>synopsis\<close> or
  \<open>provider\<close> raises it in turn.
\<close>

theorem resolvers_raise_on_empty_page:
  "fst (Anime_get_synopsis E True False (an\<lparr>a_cache := Some []\<rparr>) w) = Inl UnboundLocalError
   \<and> w_log (snd (snd (Anime_get_synopsis E True False (an\<lparr>a_cache := Some []\<rparr>) w)))
       = w_log w @ [(ERR, ''Failed to get data'')]
   \<and> fst (Anime_get_picture E True False (an\<lparr>a_cache := Some []\<rparr>) w) = Inl UnboundLocalError
   \<and> fst (Anime_get_poster E True False (an\<lparr>a_cache := Some []\<rparr>) w) = Inl UnboundLocalError
   \<and> fst (Anime_get_tags E True False (an\<lparr>a_cache := Some []\<rparr>) w) = Inl UnboundLocalError
   \<and> fst (Episode_get_provider E True False (ep\<lparr>e_cache := Some []\<rparr>) w) = Inl UnboundLocalError
   \<and> w_log (snd (snd (Episode_get_provider E True False (ep\<lparr>e_cache := Some []\<rparr>) w)))
       = w_log w @ [(ERR, ''Failed to get provider'')]
   \<and> fst (Anime_getattribute E ''synopsis'' (an\<lparr>a_synopsis := VNone, a_cache := Some []\<rparr>) w)
       = Inl UnboundLocalError
   \<and> fst (Episode_getattribute E ''provider'' (ep\<lparr>e_provider := VNone, e_cache := Some []\<rparr>) an w)
       = Inl UnboundLocalError"
proof -
  have a: "Anime_get_page E True False (an\<lparr>a_synopsis := VNone, a_cache := Some []\<rparr>) w
             = (Inr [], an\<lparr>a_synopsis := VNone, a_cache := Some []\<rparr>, w)"
    by (simp add: Anime_get_page_result Let_def)
  have e: "Episode_get_page E True False (ep\<lparr>e_provider := VNone, e_cache := Some []\<rparr>) w
             = (Inr [], ep\<lparr>e_provider := VNone, e_cache := Some []\<rparr>, w)"
    by (simp add: Episode_get_page_result Let_def)
  show ?thesis
    by (simp add: Anime_get_synopsis_def Anime_get_picture_def Anime_get_poster_def
          Anime_get_tags_def Episode_get_provider_def Anime_get_page_cached Episode_get_page_cached
          a e find_first_def find_all_def log_err_def Let_def
          Anime_getattribute_def Anime_attribute_def Anime_call_def
          Episode_getattribute_def Episode_attribute_def Episode_call_def)
qed

text \<open>
  C3 fails on the code. On the small site, the attribute \<open>picture\<close> of the show is
  read twice. The page is requested once, but \<open>get_picture\<close> stores nothing in the
  attribute, which is \<open>None\<close> after each read: the second read runs the resolver
  again, requests the image again, and returns the bytes of that second request,
  which differ from the first read's. Reading \<open>poster\<close>, \<open>tags\<close> or \<open>data\<close> of an
  episode raises \<open>AttributeError\<close>, since the class has no resolver of these names.
\<close>

theorem picture_read_twice:
  "(let r1 = Anime_getattribute demo_env ''picture'' demo_anime demo_world;
        r2 = Anime_getattribute demo_env ''picture'' (fst (snd r1)) (snd (snd r1))
    in fst r1 = Inr (AVal (VImage \<lparr>i_raw = [1], i_ext = ''jpg'', i_url = ''https://c/cover.jpg''\<rparr>))
       \<and> a_picture (fst (snd r1)) = VNone
       \<and> fst r2 = Inr (AVal (VImage \<lparr>i_raw = [2], i_ext = ''jpg'', i_url = ''https://c/cover.jpg''\<rparr>))
       \<and> a_picture (fst (snd r2)) = VNone
       \<and> w_trace (snd (snd r2))
           = [GetPage ''https://s/info/1-show_vostfr'', Get ''https://c/cover.jpg'',
              Get ''https://c/cover.jpg''])
   \<and> fst (Episode_getattribute demo_env ''poster'' demo_episode demo_anime demo_world)
       = Inl AttributeError
   \<and> fst (Episode_getattribute demo_env ''tags'' demo_episode demo_anime demo_world)
       = Inl AttributeError
   \<and> fst (Episode_getattribute demo_env ''data'' demo_episode demo_anime demo_world)
       = Inl AttributeError"
proof -
  let ?w1 = "demo_world\<lparr>w_clock := 2,
               w_trace := [GetPage ''https://s/info/1-show_vostfr'', Get ''https://c/cover.jpg'']\<rparr>"
  let ?an1 = "demo_anime\<lparr>a_cache := Some demo_show_page\<rparr>"
  have ext: "utils_get_extension demo_env ''https://c/cover.jpg'' = ''jpg''"
    by (simp add: demo_env_def split_def startswith_def)
  have img: "\<And>k. r_content (session_get demo_env k ''https://c/cover.jpg'') = [of_nat k]"
    by (simp add: demo_env_def)
  have src: "find_first demo_show_page ''.loading''
               = Some (Element [] [(''src'', ''https://c/cover.jpg'')] [] [])"
    by (simp add: find_first_def find_all_def demo_show_page_def)
  have page: "Anime_get_page demo_env True False demo_anime demo_world
                = (Inr demo_show_page, ?an1,
                   demo_world\<lparr>w_clock := 1, w_trace := [GetPage ''https://s/info/1-show_vostfr'']\<rparr>)"
    by (simp add: Anime_get_page_result get_dyna_result Let_def demo_env_def demo_anime_def
          Anime_def demo_world_def ok_def)
  have g1: "Anime_get_picture demo_env True False demo_anime demo_world
              = (Inr \<lparr>i_raw = [1], i_ext = ''jpg'', i_url = ''https://c/cover.jpg''\<rparr>, ?an1, ?w1)"
    unfolding Anime_get_picture_def page
    by (simp add: src attrs_getitem_def session_get_op_def Image_def ext img demo_world_def)
  have page2: "Anime_get_page demo_env True False ?an1 ?w1 = (Inr demo_show_page, ?an1, ?w1)"
    by (simp add: Anime_get_page_result Let_def)
  have g2: "Anime_get_picture demo_env True False ?an1 ?w1
              = (Inr \<lparr>i_raw = [2], i_ext = ''jpg'', i_url = ''https://c/cover.jpg''\<rparr>, ?an1,
                 ?w1\<lparr>w_clock := 3, w_trace := w_trace ?w1 @ [Get ''https://c/cover.jpg'']\<rparr>)"
    unfolding Anime_get_picture_def page2
    by (simp add: src attrs_getitem_def session_get_op_def Image_def ext img demo_world_def)
  have none: "a_picture demo_anime = VNone" "a_picture ?an1 = VNone"
    by (simp_all add: demo_anime_def Anime_def)
  have r1: "Anime_getattribute demo_env ''picture'' demo_anime demo_world
              = (Inr (AVal (VImage \<lparr>i_raw = [1], i_ext = ''jpg'', i_url = ''https://c/cover.jpg''\<rparr>)),
                 ?an1, ?w1)"
    by (simp add: Anime_getattribute_def Anime_attribute_def Anime_call_def none g1)
  have r2: "Anime_getattribute demo_env ''picture'' ?an1 ?w1
              = (Inr (AVal (VImage \<lparr>i_raw = [2], i_ext = ''jpg'', i_url = ''https://c/cover.jpg''\<rparr>)),
                 ?an1, ?w1\<lparr>w_clock := 3, w_trace := w_trace ?w1 @ [Get ''https://c/cover.jpg'']\<rparr>)"
    by (simp add: Anime_getattribute_def Anime_attribute_def Anime_call_def none g2)
  have ep: "fst (Episode_getattribute demo_env ''poster'' demo_episode demo_anime demo_world)
              = Inl AttributeError"
    "fst (Episode_getattribute demo_env ''tags'' demo_episode demo_anime demo_world)
              = Inl AttributeError"
    "fst (Episode_getattribute demo_env ''data'' demo_episode demo_anime demo_world)
              = Inl AttributeError"
    by (simp_all add: Episode_getattribute_def Episode_attribute_def Episode_call_def
          demo_episode_def Episode_def)
  show ?thesis
    by (simp add: Let_def r1 r2 none ep)
qed

end
